theory Spec2Isabelle
  imports Complex_Main "HOL-Library.Word"
begin

section \<open>ClipAI main process (src/src/main.js)\<close>

text \<open>
  A shallow embedding of the summarization pipeline of the main process: config
  migration, accelerator normalization, selection capture, the provider gateway and
  the summary orchestrator with the popup state it owns.

  JavaScript strings are modelled as \<^typ>\<open>string\<close>: one \<^typ>\<open>char\<close> per UTF-16 code
  unit, restricted to the code units below 256. \<open>length\<close> is \<open>.length\<close>. A string
  field that may be absent is a string in which \<open>''''\<close> stands for \<open>undefined\<close>: every
  read of such a field in the source goes through \<open>||\<close>, \<open>?.\<close> or a truthiness test,
  which treat \<open>undefined\<close> and the empty string alike. Numbers are integers.
\<close>

subsection \<open>JavaScript values and string primitives\<close>

datatype jsval = JUndefined | JNull | JBool bool | JNum int | JStr string

fun truthy :: "jsval \<Rightarrow> bool" where
  "truthy JUndefined = False"
| "truthy JNull = False"
| "truthy (JBool b) = b"
| "truthy (JNum n) = (n \<noteq> 0)"
| "truthy (JStr s) = (s \<noteq> [])"

text \<open>\<open>s.slice(0, n)\<close>: a negative end counts from the end of the string.\<close>

definition slice0 :: "string \<Rightarrow> int \<Rightarrow> string" where
  "slice0 s n = (if n < 0 then take (nat (int (length s) + n)) s else take (nat n) s)"

text \<open>White space and line terminators removed by \<open>trim\<close> (those below 256).\<close>

definition isSpace :: "char \<Rightarrow> bool" where
  "isSpace c = ((of_char c :: nat) \<in> {9, 10, 11, 12, 13, 32, 160})"

definition trim :: "string \<Rightarrow> string" where
  "trim s = rev (dropWhile isSpace (rev (dropWhile isSpace s)))"

text \<open>
  Case mapping of the code units below 256: the ASCII letters and the Latin-1
  letters (U+00C0 to U+00DE without the multiplication sign, U+00E0 to U+00FE
  without the division sign). \<open>toUpperCase\<close> turns the sharp s (U+00DF) into \<open>SS\<close>. The
  upper-case forms of U+00B5 and U+00FF lie outside the modelled code units; the two
  are left as they are.
\<close>

definition toLowerChar :: "char \<Rightarrow> char" where
  "toLowerChar c =
     (let n = (of_char c :: nat) in
      if (65 \<le> n \<and> n \<le> 90) \<or> (192 \<le> n \<and> n \<le> 222 \<and> n \<noteq> 215) then char_of (n + 32) else c)"

definition toUpperChar :: "char \<Rightarrow> string" where
  "toUpperChar c =
     (let n = (of_char c :: nat) in
      if (97 \<le> n \<and> n \<le> 122) \<or> (224 \<le> n \<and> n \<le> 254 \<and> n \<noteq> 247) then [char_of (n - 32)]
      else if n = 223 then ''SS''
      else [c])"

definition toLowerCase :: "string \<Rightarrow> string" where
  "toLowerCase s = map toLowerChar s"

definition toUpperCase :: "string \<Rightarrow> string" where
  "toUpperCase s = concat (map toUpperChar s)"

text \<open>\<open>s.split(c)\<close> for a one-character separator: never the empty list.\<close>

fun split :: "char \<Rightarrow> string \<Rightarrow> string list" where
  "split c [] = [[]]"
| "split c (x # xs) =
     (if x = c then [] # split c xs
      else (case split c xs of [] \<Rightarrow> [[x]] | y # ys \<Rightarrow> (x # y) # ys))"

fun join :: "string \<Rightarrow> string list \<Rightarrow> string" where
  "join sep [] = []"
| "join sep [x] = x"
| "join sep (x # y # ys) = x @ sep @ join sep (y # ys)"

text \<open>\<open>s.includes(sub)\<close>.\<close>

fun includes_str :: "string \<Rightarrow> string \<Rightarrow> bool" where
  "includes_str [] sub = (sub = [])"
| "includes_str (x # xs) sub = (take (length sub) (x # xs) = sub \<or> includes_str xs sub)"

subsection \<open>Accelerators (normalizeAccelerator, registerShortcuts)\<close>

text \<open>
  The loop of \<open>normalizeAccelerator\<close> over the parts: the state is the set \<open>mods\<close> and
  the variable \<open>key\<close>; \<open>accStep\<close> is the body of the \<open>forEach\<close>.
\<close>

definition accStep :: "string set \<times> string \<Rightarrow> string \<Rightarrow> string set \<times> string" where
  "accStep st p =
     (let mods = fst st; key = snd st; up = toLowerCase p in
      if up \<in> {''cmd'', ''command'', ''commandorcontrol''} then (insert ''CommandOrControl'' mods, key)
      else if up \<in> {''ctrl'', ''control''} then (insert ''Control'' mods, key)
      else if up \<in> {''alt'', ''option''} then (insert ''Alt'' mods, key)
      else if up \<in> {''shift''} then (insert ''Shift'' mods, key)
      else if up \<in> {''leftclick'', ''middleclick'', ''rightclick'', ''mousebutton4'', ''mousebutton5''}
        then (mods, p)
      else (mods,
        if length p = 1 then toUpperCase p
        else (case p of [] \<Rightarrow> [] | c # cs \<Rightarrow> toUpperCase [c] @ cs)))"

definition accParts :: "string \<Rightarrow> string list" where
  "accParts acc = filter (\<lambda>p. p \<noteq> []) (map trim (split CHR ''+'' acc))"

definition normalizeAccelerator :: "jsval \<Rightarrow> string" where
  "normalizeAccelerator acc =
     (case acc of
        JStr s \<Rightarrow>
          if s = [] then []
          else
            (let (mods, key) = foldl accStep ({}, []) (accParts s);
                 order = [''CommandOrControl'', ''Control'', ''Alt'', ''Shift''];
                 ordered = filter (\<lambda>m. m \<in> mods) order
             in if key = [] then [] else join ''+'' (ordered @ [key]))
      | _ \<Rightarrow> [])"

text \<open>
  The tokens of an accelerator string that name a modifier, in any casing. An
  accelerator has no key token when every part of it is one of them.
\<close>

definition isModifierToken :: "string \<Rightarrow> bool" where
  "isModifierToken p =
     (toLowerCase p \<in> {''cmd'', ''command'', ''commandorcontrol'', ''ctrl'', ''control'',
                        ''alt'', ''option'', ''shift''})"

definition noKeyToken :: "string \<Rightarrow> bool" where
  "noKeyToken acc = list_all isModifierToken (accParts acc)"

record preset =
  id_p :: string
  name_p :: string
  prompt :: string
  hotkey :: string
  isDefault :: jsval

text \<open>
  \<open>registerShortcuts\<close>: the bindings handed to \<open>globalShortcut.register\<close>, in order,
  each with the preset it runs. An accelerator that normalizes to the empty string
  and a mouse-button accelerator are skipped.
\<close>

definition registerShortcuts :: "preset list \<Rightarrow> (string \<times> preset) list" where
  "registerShortcuts ps =
     concat (map (\<lambda>p.
       (let acc = normalizeAccelerator (JStr (hotkey p)) in
        if acc = [] then []
        else if includes_str acc ''click'' \<or> includes_str acc ''mousebutton'' then []
        else [(acc, p)])) ps)"

subsection \<open>Constants\<close>

definition MAX_TEXT_LEN :: int where
  "MAX_TEXT_LEN = 25000"

definition MAX_PRESETS :: nat where
  "MAX_PRESETS = 10"

text \<open>
  The prompt holds U+2264, outside the modelled code units; it is written here as
  the single code unit \<open><\<close>, which keeps \<open>.length\<close>.
\<close>

definition DEFAULT_SUMMARY_PROMPT :: string where
  "DEFAULT_SUMMARY_PROMPT =
     ''Summarize in <3 concise sentences. Use Markdown formatting (headers, bold, italic, lists)''"

definition MODEL_CONTEXT_LIMITS :: "string \<Rightarrow> int option" where
  "MODEL_CONTEXT_LIMITS = map_of
     [(''gpt-4o'', 128000), (''gpt-4o-mini'', 128000), (''gpt-4-turbo'', 128000),
      (''gpt-4'', 8192), (''gpt-3.5-turbo'', 16385),
      (''llama-3.1-70b-versatile'', 131072), (''llama-3.1-8b-instant'', 131072),
      (''mixtral-8x7b-32768'', 32768), (''gemma-7b-it'', 8192),
      (''gemini-1.5-pro'', 2000000), (''gemini-1.5-flash'', 1000000), (''gemini-pro'', 32768),
      (''claude-3-5-sonnet-20241022'', 200000), (''claude-3-opus-20240229'', 200000),
      (''claude-3-sonnet-20240229'', 200000), (''claude-3-haiku-20240307'', 200000)]"

text \<open>\<open>PROVIDER_DEFAULT_MODELS[p]\<close>; \<open>''''\<close> is \<open>undefined\<close>, for a provider not in the table.\<close>

definition PROVIDER_DEFAULT_MODELS :: "string \<Rightarrow> string" where
  "PROVIDER_DEFAULT_MODELS p =
     (if p = ''openai'' then ''gpt-5-mini''
      else if p = ''groq'' then ''llama-3.1-70b-versatile''
      else if p = ''gemini'' then ''gemini-2.5-flash-lite''
      else if p = ''anthropic'' then ''claude-3''
      else if p = ''grok'' then ''grok-4''
      else [])"

subsection \<open>Config store (loadConfig, saveConfig)\<close>

record provider_cfg =
  key_c :: string
  model_c :: string

record hotkeys_cfg =
  summarize :: string

text \<open>
  The active document session. \<open>title_s\<close> is \<open>None\<close> when the title is absent: the
  template literal of the prompt then prints \<open>undefined\<close>.
\<close>

record session =
  type_s :: string
  title_s :: "string option"
  author_s :: string
  notes_s :: string

text \<open>
  \<open>document\<close> is what \<open>JSON.parse\<close> gives for the config file, when it gives an
  object: every field may be absent (\<open>JUndefined\<close>, \<open>None\<close>, \<open>''''\<close>, the empty map) or
  hold a value of another type than expected where the source tests for it.
  \<open>config\<close> is the same object after the defaults of \<open>loadConfig\<close>. The fields that
  no function below reads (theme, autoHideMs, onboarded, textAppearance,
  documentSessions) are left out.
\<close>

record document =
  d_providers :: "string \<Rightarrow> provider_cfg option"
  d_active :: string
  d_autoCopySelection :: jsval
  d_markdownMode :: jsval
  d_markdownEnabled :: jsval
  d_hotkeys :: "hotkeys_cfg option"
  d_summaryPresets :: "preset list option"
  d_activeDocumentSession :: "session option"
  d_unlimitedInput :: jsval
  d_maxInputChars :: "int option"
  d_maxOutputTokens :: "int option"

record config =
  providers :: "string \<Rightarrow> provider_cfg option"
  active :: string
  autoCopySelection :: bool
  markdownMode :: jsval
  markdownEnabled :: bool
  hotkeys :: hotkeys_cfg
  summaryPresets :: "preset list"
  activeDocumentSession :: "session option"
  unlimitedInput :: jsval
  maxInputChars :: int
  maxOutputTokens :: int

definition emptyDocument :: document where
  "emptyDocument =
     \<lparr> d_providers = Map.empty, d_active = [], d_autoCopySelection = JUndefined,
       d_markdownMode = JUndefined, d_markdownEnabled = JUndefined, d_hotkeys = None,
       d_summaryPresets = None, d_activeDocumentSession = None,
       d_unlimitedInput = JUndefined, d_maxInputChars = None, d_maxOutputTokens = None \<rparr>"

text \<open>The callback \<open>p => p.isDefault\<close> of \<open>some\<close> and \<open>find\<close>.\<close>

definition flagged :: "preset \<Rightarrow> bool" where
  "flagged p = truthy (isDefault p)"

text \<open>The object \<open>loadConfig\<close> unshifts when no preset is flagged as the default.\<close>

definition defaultPreset :: "hotkeys_cfg \<Rightarrow> preset" where
  "defaultPreset hk =
     \<lparr> id_p = ''default'', name_p = ''Summary'', prompt = DEFAULT_SUMMARY_PROMPT,
       hotkey = summarize hk, isDefault = JBool True \<rparr>"

definition ensureProvider :: "(string \<Rightarrow> provider_cfg option) \<Rightarrow> string \<Rightarrow> (string \<Rightarrow> provider_cfg option)" where
  "ensureProvider m p =
     (let e = (case m p of None \<Rightarrow> \<lparr> key_c = [], model_c = [] \<rparr> | Some e \<Rightarrow> e)
      in m(p \<mapsto> (if model_c e = [] then e\<lparr> model_c := PROVIDER_DEFAULT_MODELS p \<rparr> else e)))"

text \<open>The block "Migration / defaults" of \<open>loadConfig\<close>, applied to the parsed document.\<close>

definition migrate :: "document \<Rightarrow> config" where
  "migrate d =
     (let provs = foldl ensureProvider (d_providers d)
                    [''openai'', ''anthropic'', ''gemini'', ''groq'', ''grok''];
          act = (if d_active d = [] then ''gemini'' else d_active d);
          mode = (if \<not> truthy (d_markdownMode d)
                  then (case d_markdownEnabled d of
                          JBool b \<Rightarrow> JStr (if b then ''full'' else ''off'')
                        | _ \<Rightarrow> JStr ''full'')
                  else d_markdownMode d);
          hk = (case d_hotkeys d of
                  None \<Rightarrow> \<lparr> summarize = ''CommandOrControl+Shift+Space'' \<rparr>
                | Some h \<Rightarrow> h);
          ps = (case d_summaryPresets d of Some l \<Rightarrow> take MAX_PRESETS l | None \<Rightarrow> [])
      in \<lparr> providers = provs,
           active = (if act \<in> {''mistral'', ''cohere''} then ''openai'' else act),
           autoCopySelection = (d_autoCopySelection d \<noteq> JBool False),
           markdownMode = mode,
           markdownEnabled = (mode \<noteq> JStr ''off''),
           hotkeys = hk,
           summaryPresets =
             (if \<not> list_ex flagged ps then defaultPreset hk # ps else ps),
           activeDocumentSession = d_activeDocumentSession d,
           unlimitedInput =
             (if d_unlimitedInput d \<noteq> JUndefined then d_unlimitedInput d else JBool False),
           maxInputChars =
             (case d_maxInputChars d of None \<Rightarrow> MAX_TEXT_LEN
              | Some n \<Rightarrow> if n = 0 then MAX_TEXT_LEN else n),
           maxOutputTokens =
             (case d_maxOutputTokens d of None \<Rightarrow> 800
              | Some n \<Rightarrow> if n = 0 then 800 else n) \<rparr>)"

text \<open>
  The store: the module variable \<open>configCache\<close> and the config file, \<open>None\<close> when the
  file cannot be read or parsed (\<open>cfg = {}\<close>).
\<close>

record store =
  configCache :: "config option"
  disk :: "document option"

definition loadConfig :: "store \<Rightarrow> config \<times> store" where
  "loadConfig st =
     (case configCache st of
        Some c \<Rightarrow> (c, st)
      | None \<Rightarrow>
          (let cfg = migrate (case disk st of None \<Rightarrow> emptyDocument | Some d \<Rightarrow> d)
           in (cfg, st\<lparr> configCache := Some cfg \<rparr>)))"

text \<open>\<open>JSON.stringify(cfg)\<close> read back by \<open>JSON.parse\<close>.\<close>

definition toDocument :: "config \<Rightarrow> document" where
  "toDocument c =
     \<lparr> d_providers = providers c, d_active = active c,
       d_autoCopySelection = JBool (autoCopySelection c),
       d_markdownMode = markdownMode c, d_markdownEnabled = JBool (markdownEnabled c),
       d_hotkeys = Some (hotkeys c), d_summaryPresets = Some (summaryPresets c),
       d_activeDocumentSession = activeDocumentSession c,
       d_unlimitedInput = unlimitedInput c, d_maxInputChars = Some (maxInputChars c),
       d_maxOutputTokens = Some (maxOutputTokens c) \<rparr>"

definition saveConfig :: "(config \<Rightarrow> config) \<Rightarrow> store \<Rightarrow> config \<times> store" where
  "saveConfig mutator st =
     (let (cfg, st1) = loadConfig st;
          st2 = st1\<lparr> disk := Some (toDocument (mutator cfg)), configCache := None \<rparr>
      in loadConfig st2)"

subsection \<open>The handler of clipai:set-summary-presets\<close>

text \<open>
  \<open>freshId i\<close> is the id generated (\<open>'p_' + Date.now() + ...\<close>) for the \<open>i\<close>-th submitted
  preset when it has none.
\<close>

definition normalizePreset :: "(nat \<Rightarrow> string) \<Rightarrow> nat \<times> preset \<Rightarrow> preset" where
  "normalizePreset freshId ip =
     (let i = fst ip; p = snd ip in
      \<lparr> id_p = (if id_p p = [] then freshId i else id_p p),
        name_p = (let n = slice0 (name_p p) 48 in if n = [] then ''Preset'' else n),
        prompt = slice0 (if prompt p = [] then DEFAULT_SUMMARY_PROMPT else prompt p) 1200,
        hotkey = normalizeAccelerator (JStr (hotkey p)),
        isDefault = JBool (isDefault p = JBool True \<and> id_p p = ''default'') \<rparr>)"

definition conflictStep ::
  "(string \<times> string) list \<times> (string \<times> string \<times> string) list \<Rightarrow> preset
     \<Rightarrow> (string \<times> string) list \<times> (string \<times> string \<times> string) list" where
  "conflictStep st p =
     (let seen = fst st; conflicts = snd st in
      if hotkey p \<noteq> [] then
        (case map_of seen (hotkey p) of
           Some a \<Rightarrow> (seen, conflicts @ [(hotkey p, a, id_p p)])
         | None \<Rightarrow> (seen @ [(hotkey p, id_p p)], conflicts))
      else st)"

text \<open>The first \<open>MAX_PRESETS\<close> submitted presets, none when \<open>presets\<close> is not an array.\<close>

definition submitted :: "preset list option \<Rightarrow> preset list" where
  "submitted presets = (case presets of None \<Rightarrow> [] | Some l \<Rightarrow> take MAX_PRESETS l)"

definition normalizedPresets :: "(nat \<Rightarrow> string) \<Rightarrow> preset list option \<Rightarrow> preset list" where
  "normalizedPresets freshId presets =
     map (normalizePreset freshId) (enumerate 0 (submitted presets))"

text \<open>The constant \<open>def\<close> of the handler.\<close>

definition currentDefault :: "config \<Rightarrow> preset" where
  "currentDefault cfg =
     (case find flagged (summaryPresets cfg) of
        Some p \<Rightarrow> p
      | None \<Rightarrow> defaultPreset (hotkeys cfg))"

text \<open>
  The handler returns the conflicts; the model returns with them the bindings it
  registers and the store it leaves.
\<close>

definition setSummaryPresets ::
  "(nat \<Rightarrow> string) \<Rightarrow> preset list option \<Rightarrow> store
     \<Rightarrow> (string \<times> string \<times> string) list \<times> (string \<times> preset) list \<times> store" where
  "setSummaryPresets freshId presets st =
     (let (cfg, st1) = loadConfig st;
          normalized = normalizedPresets freshId presets;
          def = currentDefault cfg;
          normalized' = (if \<not> list_ex flagged normalized then def # normalized else normalized);
          conflicts = snd (foldl conflictStep ([], []) normalized');
          (newCfg, st2) = saveConfig (\<lambda>cfg2. cfg2\<lparr> summaryPresets := normalized' \<rparr>) st1;
          (cfg3, st3) = loadConfig st2
      in (conflicts, registerShortcuts (summaryPresets cfg3), st3))"

text \<open>The presets of the config as loaded afresh from the file, and after the handler.\<close>

definition storedPresets :: "document option \<Rightarrow> preset list" where
  "storedPresets dk =
     (case dk of
        None \<Rightarrow> []
      | Some d \<Rightarrow> (case d_summaryPresets d of None \<Rightarrow> [] | Some l \<Rightarrow> take MAX_PRESETS l))"

definition presetsAfterLoad :: "document option \<Rightarrow> preset list" where
  "presetsAfterLoad dk = summaryPresets (fst (loadConfig \<lparr> configCache = None, disk = dk \<rparr>))"

definition hotkeysAfterLoad :: "document option \<Rightarrow> hotkeys_cfg" where
  "hotkeysAfterLoad dk = hotkeys (fst (loadConfig \<lparr> configCache = None, disk = dk \<rparr>))"

definition presetsAfterSet :: "(nat \<Rightarrow> string) \<Rightarrow> preset list option \<Rightarrow> store \<Rightarrow> preset list" where
  "presetsAfterSet freshId presets st =
     summaryPresets (fst (loadConfig (snd (snd (setSummaryPresets freshId presets st)))))"

text \<open>The number of presets with \<open>isDefault === true\<close>.\<close>

definition countDefaults :: "preset list \<Rightarrow> nat" where
  "countDefaults ps = length (filter (\<lambda>p. isDefault p = JBool True) ps)"

subsection \<open>Numbers as text, hashString\<close>

definition digitChar :: "nat \<Rightarrow> char" where
  "digitChar n = ''0123456789abcdefghijklmnopqrstuvwxyz'' ! (n mod 36)"

function toRadix :: "nat \<Rightarrow> nat \<Rightarrow> string" where
  "toRadix b n = (if b < 2 \<or> n < b then [digitChar n] else toRadix b (n div b) @ [digitChar (n mod b)])"
  by pat_completeness auto
termination
  by (relation "measure (\<lambda>(b, n). n)") auto

declare toRadix.simps [simp del]

text \<open>\<open>n.toString(radix)\<close> and the template-literal rendering of an integer.\<close>

definition toStringRadix :: "nat \<Rightarrow> int \<Rightarrow> string" where
  "toStringRadix b i = (if i < 0 then CHR ''-'' # toRadix b (nat (- i)) else toRadix b (nat i))"

definition showInt :: "int \<Rightarrow> string" where
  "showInt i = toStringRadix 10 i"

text \<open>
  \<open>hashString\<close>: \<open>h = ((h << 5) - h + str.charCodeAt(i)) | 0\<close> is arithmetic on 32-bit
  words, read as a signed number by \<open>toString(36)\<close>.
\<close>

definition hashStep :: "32 word \<Rightarrow> char \<Rightarrow> 32 word" where
  "hashStep h c = push_bit 5 h - h + of_nat (of_char c)"

definition hashString :: "string \<Rightarrow> string" where
  "hashString str = toStringRadix 36 (sint (foldl hashStep 0 str))"

subsection \<open>Selection capture (captureSelectionText)\<close>

datatype platform = Darwin | Win32 | Linux | OtherPlatform

text \<open>
  What becomes of the simulated copy keystroke. The function awaits a promise that
  resolves on the \<open>exit\<close> event of the spawned tool and on nothing else:
  \<^item> \<open>Copied t\<close>: the tool exited, with any exit code, and the clipboard then reads \<open>t\<close>;
  \<^item> \<open>Threw\<close>: the code in the \<open>try\<close> block threw, and the \<open>catch\<close> ran;
  \<^item> \<open>NeverExits\<close>: the tool could not be spawned; the child emits \<open>error\<close> and no
    \<open>exit\<close>, and the promise stays pending.
\<close>

datatype copy_outcome = Copied string | Threw | NeverExits

text \<open>
  What the function meets outside itself: the clipboard at entry, the platform, and
  the outcome of the simulated copy.
\<close>

record capture_env =
  clipboardBefore :: string
  platform :: platform
  copy :: copy_outcome

text \<open>
  The end of the function, from the test \<open>!selection || selection === before\<close>: the
  returned text paired with the text written back to the clipboard by the timer
  started before the return.
\<close>

definition finishCapture :: "string \<Rightarrow> string \<Rightarrow> string \<times> string" where
  "finishCapture before selection =
     (let selection' = (if selection = [] \<or> selection = before then before else selection)
      in (trim selection', before))"

text \<open>The result is \<open>None\<close> when the promise the function returns never settles.\<close>

definition captureSelectionText :: "config \<Rightarrow> capture_env \<Rightarrow> (string \<times> string) option" where
  "captureSelectionText cfg env =
     (let before = clipboardBefore env in
      if autoCopySelection cfg \<noteq> False then
        (if platform env = Darwin \<or> platform env = Win32 \<or> platform env = Linux then
           (case copy env of
              NeverExits \<Rightarrow> None
            | Threw \<Rightarrow> Some (finishCapture before before)
            | Copied t \<Rightarrow> Some (finishCapture before t))
         else Some (finishCapture before before))
      else Some (finishCapture before before))"

subsection \<open>Provider gateway (summarizeWithProvider)\<close>

text \<open>
  The URL is kept as the endpoint it names (for Gemini with the model, after the
  suffix is stripped, and the key it embeds); the body is the object handed to
  \<open>JSON.stringify\<close>, without the constant temperature.
\<close>

datatype endpoint =
    OpenAIChat
  | GroqChat
  | AnthropicMessages
  | GeminiGenerateContent string string
  | OpenRouterChat

datatype payload =
    ChatCompletions string string string int
  | Messages string string int string
  | GenerateContent string int

record request =
  url :: endpoint
  headers :: "(string \<times> string) list"
  body :: payload

text \<open>The parts of a provider's JSON answer that the gateway reads.\<close>

record reply =
  choices :: "string list"
  content :: "string list"
  candidates :: "string list list"

text \<open>
  A response: \<open>res.ok\<close> is true for a status from 200 to 299; \<open>text_r\<close> is the body
  as \<open>res.text()\<close> gives it; \<open>json\<close> is \<open>Inl\<close> the error's message when \<open>res.json()\<close>
  rejects.
\<close>

record response =
  status :: nat
  text_r :: string
  json :: "string + reply"

definition ok :: "response \<Rightarrow> bool" where
  "ok res = (200 \<le> status res \<and> status res \<le> 299)"

text \<open>\<open>m.replace(/:generateContent$/, '')\<close>.\<close>

definition stripGenerateContent :: "string \<Rightarrow> string" where
  "stripGenerateContent m =
     (let suf = '':generateContent''; n = length m - length suf in
      if length suf \<le> length m \<and> drop n m = suf then take n m else m)"

text \<open>
  The gateway up to its \<open>fetch\<close>: the request it sends, or \<open>Inl\<close> the message of the
  \<open>Error\<close> it throws.
\<close>

definition buildRequest ::
  "config \<Rightarrow> string \<Rightarrow> string \<Rightarrow> string \<Rightarrow> string \<Rightarrow> string \<Rightarrow> string + request" where
  "buildRequest cfg provider key model systemPrompt userText =
     (let trimmed = slice0 userText MAX_TEXT_LEN;
          finalSystem = (if systemPrompt = [] then DEFAULT_SUMMARY_PROMPT else systemPrompt);
          m = (if model = [] then PROVIDER_DEFAULT_MODELS provider else model);
          json_h = (''Content-Type'', ''application/json'')
      in
      if provider = ''openai'' \<or> provider = ''groq'' then
        (if key = [] then Inl ''Missing API key''
         else Inr \<lparr> url = (if provider = ''openai'' then OpenAIChat else GroqChat),
                    headers = [json_h, (''Authorization'', ''Bearer '' @ key)],
                    body = ChatCompletions m finalSystem trimmed (maxOutputTokens cfg) \<rparr>)
      else if provider = ''anthropic'' then
        (if key = [] then Inl ''Missing API key''
         else Inr \<lparr> url = AnthropicMessages,
                    headers = [json_h, (''x-api-key'', key), (''anthropic-version'', ''2023-06-01'')],
                    body = Messages m finalSystem (maxOutputTokens cfg) trimmed \<rparr>)
      else if provider = ''gemini'' then
        (if key = [] then Inl ''Missing API key''
         else Inr \<lparr> url = GeminiGenerateContent (stripGenerateContent m) key,
                    headers = [json_h],
                    body = GenerateContent
                      (finalSystem @ [CHR 0x0A, CHR 0x0A] @ ''INPUT:'' @ [CHR 0x0A] @ trimmed)
                      (maxOutputTokens cfg) \<rparr>)
      else if provider = ''grok'' then
        (if key = [] then Inl ''Missing API key''
         else Inr \<lparr> url = OpenRouterChat,
                    headers = [json_h, (''Authorization'', ''Bearer '' @ key)],
                    body = ChatCompletions m finalSystem trimmed (maxOutputTokens cfg) \<rparr>)
      else Inl ''Unsupported provider'')"

text \<open>The user text inside a payload built with the system prompt \<open>sys\<close>.\<close>

fun userTextOf :: "string \<Rightarrow> payload \<Rightarrow> string" where
  "userTextOf sys (ChatCompletions m s u n) = u"
| "userTextOf sys (Messages m s n u) = u"
| "userTextOf sys (GenerateContent t n) = drop (length sys + 9) t"

definition extractText :: "string \<Rightarrow> reply \<Rightarrow> string" where
  "extractText provider data =
     (if provider = ''openai'' \<or> provider = ''groq'' \<or> provider = ''grok'' then
        (case choices data of [] \<Rightarrow> [] | c # _ \<Rightarrow> c)
      else if provider = ''anthropic'' then
        (case content data of [] \<Rightarrow> [] | c # _ \<Rightarrow> c)
      else if provider = ''gemini'' then
        (case candidates data of [] \<Rightarrow> [] | parts # _ \<Rightarrow> join [CHR 0x0A] parts)
      else [])"

text \<open>
  \<open>fetch\<close> answers a request with a response, or rejects (\<open>Inl\<close> the message). The
  result is the summary, or \<open>Inl\<close> the message of the error the call fails with.
\<close>

definition summarizeWithProvider ::
  "config \<Rightarrow> (request \<Rightarrow> string + response) \<Rightarrow> string \<Rightarrow> string \<Rightarrow> string \<Rightarrow> string \<Rightarrow> string
     \<Rightarrow> string + string" where
  "summarizeWithProvider cfg fetch provider key model systemPrompt userText =
     (case buildRequest cfg provider key model systemPrompt userText of
        Inl e \<Rightarrow> Inl e
      | Inr req \<Rightarrow>
          (case fetch req of
             Inl e \<Rightarrow> Inl e
           | Inr res \<Rightarrow>
               if \<not> ok res then
                 Inl (''HTTP '' @ showInt (int (status res)) @ '': '' @ slice0 (text_r res) 160)
               else
                 (case json res of
                    Inl e \<Rightarrow> Inl e
                  | Inr data \<Rightarrow> Inr (trim (extractText provider data)))))"

subsection \<open>Summary orchestrator and popup lifecycle (runSummary)\<close>

text \<open>
  Messages sent to the popup's \<open>webContents\<close>: \<open>clipai:summary\<close> with
  \<open>{summary, inputPreview}\<close>, \<open>{summary, fullText}\<close> or \<open>{error}\<close>, and
  \<open>clipai:start-fade-out\<close>.
\<close>

datatype message =
    Summary string string
  | SummaryResult string string
  | SummaryError string
  | StartFadeOut

text \<open>A call of \<open>summarizeWithProvider(provider, key, model, systemPrompt, userText)\<close>.\<close>

datatype gateway_call = GatewayCall string string string string string

fun userText :: "gateway_call \<Rightarrow> string" where
  "userText (GatewayCall provider key model systemPrompt text) = text"

fun requestOf :: "config \<Rightarrow> gateway_call \<Rightarrow> string + request" where
  "requestOf cfg (GatewayCall provider key model systemPrompt text) =
     buildRequest cfg provider key model systemPrompt text"

text \<open>
  The module's mutable state. \<open>popupWindow\<close> is \<open>None\<close> when the variable is null (the
  \<open>closed\<close> handler resets it when the window is destroyed) and \<open>Some v\<close> for a window
  with \<open>isVisible() = v\<close>. \<open>sent\<close> and \<open>calls\<close> record, oldest first, the messages sent
  to the popup and the gateway calls made; \<open>showCount\<close> counts the calls of
  \<open>showPopupNearCursor\<close>. Window position and focus are not modelled.
\<close>

record app =
  popupWindow :: "bool option"
  popupFading :: bool
  popupAutoHideTimer :: bool
  lastSelectionText :: string
  lastSummaryInputHash :: string
  summaryInFlight :: bool
  lastPopupShowTs :: int
  sent :: "message list"
  calls :: "gateway_call list"
  showCount :: nat

definition showPopupNearCursor :: "app \<Rightarrow> app" where
  "showPopupNearCursor s = s\<lparr> popupWindow := Some True, showCount := showCount s + 1 \<rparr>"

definition finalizeHidePopup :: "app \<Rightarrow> app" where
  "finalizeHidePopup s =
     (case popupWindow s of
        None \<Rightarrow> s
      | Some v \<Rightarrow> s\<lparr> popupWindow := Some False, popupFading := False, popupAutoHideTimer := False \<rparr>)"

text \<open>\<open>sendOk\<close> is false when sending the fade-out message throws.\<close>

definition scheduleHidePopup :: "bool \<Rightarrow> app \<Rightarrow> app" where
  "scheduleHidePopup sendOk s =
     (case popupWindow s of
        None \<Rightarrow> s
      | Some v \<Rightarrow>
          if popupFading s then s
          else if sendOk then s\<lparr> sent := sent s @ [StartFadeOut], popupFading := True \<rparr>
          else finalizeHidePopup s)"

text \<open>
  The emoji of the document types are surrogate pairs, two code units each,
  outside the modelled range; each is written as two ASCII code units. A type that
  is a property of \<open>Object.prototype\<close> is not modelled.
\<close>

definition typeEmoji :: "string \<Rightarrow> string" where
  "typeEmoji t =
     (if t = ''book'' then ''#b'' else if t = ''paper'' then ''#p''
      else if t = ''thesis'' then ''#t'' else if t = ''report'' then ''#r''
      else if t = ''article'' then ''#a'' else ''#p'')"

definition contextAddition :: "session \<Rightarrow> string" where
  "contextAddition session =
     (let contextInfo = join '' | ''
            ([''Document: '' @ typeEmoji (type_s session) @ '' \"''
                @ (case title_s session of None \<Rightarrow> ''undefined'' | Some t \<Rightarrow> t) @ ''\"'']
             @ (if author_s session \<noteq> [] then [''Author: '' @ author_s session] else [])
             @ (if notes_s session \<noteq> [] then [''Context: '' @ slice0 (notes_s session) 200] else []))
      in [CHR 0x0A, CHR 0x0A] @ ''DOCUMENT CONTEXT: '' @ contextInfo @ [CHR 0x0A, CHR 0x0A]
         @ ''Please consider this document context when summarizing and explain how this section relates to the broader work.'')"

definition contextualPrompt :: "config \<Rightarrow> preset option \<Rightarrow> string" where
  "contextualPrompt cfg preset =
     (let base = (case preset of None \<Rightarrow> DEFAULT_SUMMARY_PROMPT
                  | Some p \<Rightarrow> if prompt p = [] then DEFAULT_SUMMARY_PROMPT else prompt p)
      in case activeDocumentSession cfg of
           None \<Rightarrow> base
         | Some session \<Rightarrow> base @ contextAddition session)"

text \<open>
  \<open>getMaxInputLength\<close>, a closure over \<open>cfg\<close> and \<open>contextualPrompt\<close>. The lengths and
  limits are integers: \<open>Math.ceil(n / 4)\<close> is \<open>(n + 3) div 4\<close> and, for the limits of
  the table, \<open>Math.ceil(contextLimit * 0.1)\<close> is \<open>(contextLimit + 9) div 10\<close>; the final
  \<open>Math.floor\<close> is of an integer. A model name that is a property of
  \<open>Object.prototype\<close> is not modelled.
\<close>

definition getMaxInputLength ::
  "config \<Rightarrow> string \<Rightarrow> string \<Rightarrow> string \<Rightarrow> jsval \<Rightarrow> int \<Rightarrow> int" where
  "getMaxInputLength cfg ctxPrompt provider model unlimitedMode contextLength =
     (if \<not> truthy unlimitedMode then maxInputChars cfg
      else
        (let modelKey = (if model = [] then PROVIDER_DEFAULT_MODELS provider else model) in
         case MODEL_CONTEXT_LIMITS modelKey of
           None \<Rightarrow> MAX_TEXT_LEN
         | Some contextLimit \<Rightarrow>
             (let systemPromptTokens = (int (length ctxPrompt) + 3) div 4;
                  responseTokens = maxOutputTokens cfg;
                  safetyMargin = (contextLimit + 9) div 10;
                  availableTokens = contextLimit - systemPromptTokens - responseTokens - safetyMargin
              in max 5000 (availableTokens * 4))))"

definition providerCfg :: "config \<Rightarrow> provider_cfg" where
  "providerCfg cfg =
     (case providers cfg (active cfg) of None \<Rightarrow> \<lparr> key_c = [], model_c = [] \<rparr> | Some pc \<Rightarrow> pc)"

definition effectiveMaxLength :: "config \<Rightarrow> preset option \<Rightarrow> int" where
  "effectiveMaxLength cfg preset =
     getMaxInputLength cfg (contextualPrompt cfg preset) (active cfg) (model_c (providerCfg cfg))
       (unlimitedInput cfg)
       (case activeDocumentSession cfg of None \<Rightarrow> 0 | Some session \<Rightarrow> int (length (contextAddition session)))"

definition presetId :: "preset option \<Rightarrow> string" where
  "presetId preset =
     (case preset of None \<Rightarrow> ''default'' | Some p \<Rightarrow> if id_p p = [] then ''default'' else id_p p)"

text \<open>
  \<open>runSummary\<close> from its entry to the \<open>await\<close> of the gateway call. \<open>captured\<close> is the
  text \<open>captureSelectionText\<close> resolves with, \<open>now\<close> is \<open>Date.now()\<close>. Before the capture
  resolves the function reads only the config, so the state the rest of it sees is
  the state at that moment. U+2026 and U+2192 in the message texts are written \<open>~\<close>
  and \<open>>\<close>.
\<close>

definition runSummary :: "config \<Rightarrow> preset option \<Rightarrow> string \<Rightarrow> int \<Rightarrow> bool \<Rightarrow> app \<Rightarrow> app" where
  "runSummary cfg preset captured now sendOk s =
     (if key_c (providerCfg cfg) = [] then
        (let s1 = (if popupWindow s \<noteq> Some True
                   then (showPopupNearCursor s)\<lparr> lastPopupShowTs := now \<rparr> else s)
         in (case popupWindow s1 of
               None \<Rightarrow> s1
             | Some v \<Rightarrow> s1\<lparr> sent := sent s1 @
                 [Summary ''No API key. Go to Preferences > fill in API key for your provider.'' []] \<rparr>))
      else
        (let selection = (if captured = [] then ''(No selection)'' else captured);
             newHash = hashString (selection @ ''|'' @ presetId preset)
         in
         if popupWindow s = Some True \<and> newHash = lastSummaryInputHash s
            \<and> (\<not> summaryInFlight s \<or> now - lastPopupShowTs s > 800)
         then scheduleHidePopup sendOk s
         else
           (let s1 = s\<lparr> lastSummaryInputHash := newHash, lastSelectionText := selection \<rparr>;
                s2 = (if popupWindow s1 \<noteq> Some True
                      then (showPopupNearCursor s1)\<lparr> lastPopupShowTs := now \<rparr> else s1);
                s3 = s2\<lparr> summaryInFlight := True,
                         sent := sent s2 @ [Summary ''Working~'' (slice0 selection 160)] \<rparr>;
                pCfg = providerCfg cfg;
                limit = effectiveMaxLength cfg preset;
                limitedSelection = slice0 selection limit;
                s4 = (if int (length selection) > limit then
                        s3\<lparr> sent := sent s3 @
                          [Summary (''Working~ (Text truncated by ''
                                      @ showInt (int (length selection) - limit) @ '' chars due to ''
                                      @ (if truthy (unlimitedInput cfg) then ''model context limit''
                                         else if activeDocumentSession cfg \<noteq> None then ''document context''
                                         else ''safety limit'') @ '')'')
                                   (slice0 limitedSelection 160)] \<rparr>
                      else s3)
            in s4\<lparr> calls := calls s4 @
                 [GatewayCall (active cfg) (key_c pCfg) (model_c pCfg)
                    (contextualPrompt cfg preset) limitedSelection] \<rparr>)))"

text \<open>
  The rest of \<open>runSummary\<close>, when the gateway call settles with \<open>outcome\<close>;
  \<open>selection\<close> is the text of that run.
\<close>

definition runSummary_settled :: "string \<Rightarrow> string + string \<Rightarrow> app \<Rightarrow> app" where
  "runSummary_settled selection outcome s =
     (let s1 = (case popupWindow s of
                  None \<Rightarrow> s
                | Some v \<Rightarrow>
                    s\<lparr> sent := sent s @
                      [case outcome of Inr summary \<Rightarrow> SummaryResult summary selection
                       | Inl e \<Rightarrow> SummaryError e] \<rparr>)
      in s1\<lparr> summaryInFlight := False \<rparr>)"

subsection \<open>The ceiling as the specification words it\<close>

text \<open>
  The specification's formula for the ceiling under unlimited input,
  \<open>max(5000, floor(4 * (L - systemPromptTokens - maxOutputTokens - 0.1*L)))\<close>, over the
  reals.
\<close>

definition specCeiling :: "int \<Rightarrow> int \<Rightarrow> int \<Rightarrow> int" where
  "specCeiling L systemPromptTokens maxOut =
     max 5000 \<lfloor>4 * (real_of_int L - real_of_int systemPromptTokens - real_of_int maxOut
                      - 0.1 * real_of_int L)\<rfloor>"

subsection \<open>Example inputs\<close>

text \<open>The module state at start-up.\<close>

definition initialApp :: app where
  "initialApp =
     \<lparr> popupWindow = None, popupFading = False, popupAutoHideTimer = False,
       lastSelectionText = [], lastSummaryInputHash = [], summaryInFlight = False,
       lastPopupShowTs = 0, sent = [], calls = [], showCount = 0 \<rparr>"

text \<open>A config file that names OpenAI with a key and the model \<open>gpt-4\<close>.\<close>

definition exampleDocument :: document where
  "exampleDocument =
     emptyDocument\<lparr> d_active := ''openai'',
       d_providers := [''openai'' \<mapsto> \<lparr> key_c = ''sk-test'', model_c = ''gpt-4'' \<rparr>] \<rparr>"

definition configOf :: "document \<Rightarrow> config" where
  "configOf d = fst (loadConfig \<lparr> configCache = None, disk = Some d \<rparr>)"

definition exampleConfig :: config where
  "exampleConfig = configOf exampleDocument"

text \<open>
  A first trigger on the text \<open>hello\<close> at time 1000, from the initial state, and
  a second one on the same text at time 1400, before the first request settles.
\<close>

definition firstRun :: app where
  "firstRun = runSummary exampleConfig None ''hello'' 1000 True initialApp"

definition secondRun :: app where
  "secondRun = runSummary exampleConfig None ''hello'' 1400 True firstRun"

definition twoDefaults :: "preset list" where
  "twoDefaults =
     [\<lparr> id_p = ''default'', name_p = ''Summary'', prompt = ''Summarize'', hotkey = [],
        isDefault = JBool True \<rparr>,
      \<lparr> id_p = ''default'', name_p = ''Explain'', prompt = ''Explain'', hotkey = [],
        isDefault = JBool True \<rparr>]"

definition explainPreset :: preset where
  "explainPreset = \<lparr> id_p = ''explain'', name_p = ''Explain'', prompt = ''Explain this'',
      hotkey = ''ctrl+e'', isDefault = JBool False \<rparr>"

definition oneDefault :: "preset list" where
  "oneDefault =
     [\<lparr> id_p = ''default'', name_p = ''Summary'', prompt = ''Summarize'', hotkey = [],
        isDefault = JBool True \<rparr>,
      explainPreset]"

definition numericFlag :: "preset list" where
  "numericFlag =
     [\<lparr> id_p = ''default'', name_p = ''Summary'', prompt = ''Summarize'', hotkey = [],
        isDefault = JNum 1 \<rparr>]"

subsection \<open>Properties of the accelerator registry\<close>

lemma accStep_modifier:
  "isModifierToken p \<Longrightarrow> snd (accStep (mods, key) p) = key"
  unfolding isModifierToken_def accStep_def Let_def by auto

lemma foldl_accStep_modifiers:
  "list_all isModifierToken ps \<Longrightarrow> snd (foldl accStep (mods, key) ps) = key"
proof (induction ps arbitrary: mods key)
  case Nil
  show ?case by simp
next
  case (Cons p ps)
  from Cons.prems have p: "isModifierToken p" and ps: "list_all isModifierToken ps"
    by simp_all
  obtain mods' where step: "accStep (mods, key) p = (mods', key)"
    using accStep_modifier [OF p, of mods key] by (cases "accStep (mods, key) p") simp
  show ?case using Cons.IH [OF ps, of mods' key] by (simp add: step)
qed

lemma normalizeAccelerator_noKeyToken:
  "noKeyToken acc \<Longrightarrow> normalizeAccelerator (JStr acc) = []"
proof -
  assume "noKeyToken acc"
  then have "snd (foldl accStep ({}, []) (accParts acc)) = []"
    unfolding noKeyToken_def by (rule foldl_accStep_modifiers)
  then show ?thesis
    unfolding normalizeAccelerator_def by (auto simp: Let_def split: prod.splits)
qed

lemma registerShortcuts_hotkeys:
  "(a, p) \<in> set (registerShortcuts ps) \<Longrightarrow> normalizeAccelerator (JStr (hotkey p)) \<noteq> []"
  unfolding registerShortcuts_def by (auto simp: Let_def split: if_splits)

text \<open>
  C9. An accelerator string with no non-modifier key token (only modifier names in
  any casing, or an empty or blank string) normalizes to the empty string, and no
  preset bound to it is registered as a global shortcut.
\<close>

theorem C9_normalize_without_key:
  assumes "noKeyToken acc"
  shows "normalizeAccelerator (JStr acc) = []
       \<and> filter (\<lambda>ap. hotkey (snd ap) = acc) (registerShortcuts ps) = []"
proof -
  have n: "normalizeAccelerator (JStr acc) = []"
    using assms by (rule normalizeAccelerator_noKeyToken)
  have "hotkey (snd ap) \<noteq> acc" if "ap \<in> set (registerShortcuts ps)" for ap
    using registerShortcuts_hotkeys [of "fst ap" "snd ap" ps] that n by auto
  then have "filter (\<lambda>ap. hotkey (snd ap) = acc) (registerShortcuts ps) = []"
    by (simp add: filter_empty_conv)
  with n show ?thesis by simp
qed

theorem C9_normalize_without_key_witness:
  "noKeyToken ''Ctrl + SHIFT''
   \<and> normalizeAccelerator (JStr ''Ctrl + SHIFT'') = []
   \<and> filter (\<lambda>ap. hotkey (snd ap) = ''Ctrl + SHIFT'')
        (registerShortcuts
          [\<lparr> id_p = ''a'', name_p = ''A'', prompt = [], hotkey = ''Ctrl + SHIFT'', isDefault = JBool False \<rparr>,
           \<lparr> id_p = ''b'', name_p = ''B'', prompt = [], hotkey = ''ctrl+k'', isDefault = JBool False \<rparr>]) = []
   \<and> map fst (registerShortcuts
          [\<lparr> id_p = ''a'', name_p = ''A'', prompt = [], hotkey = ''Ctrl + SHIFT'', isDefault = JBool False \<rparr>,
           \<lparr> id_p = ''b'', name_p = ''B'', prompt = [], hotkey = ''ctrl+k'', isDefault = JBool False \<rparr>])
       = [''Control+K'']"
proof -
  have h: "noKeyToken ''Ctrl + SHIFT''" by code_simp
  have r: "map fst (registerShortcuts
          [\<lparr> id_p = ''a'', name_p = ''A'', prompt = [], hotkey = ''Ctrl + SHIFT'', isDefault = JBool False \<rparr>,
           \<lparr> id_p = ''b'', name_p = ''B'', prompt = [], hotkey = ''ctrl+k'', isDefault = JBool False \<rparr>])
       = [''Control+K'']" by code_simp
  show ?thesis using h r C9_normalize_without_key [OF h] by simp
qed

subsection \<open>Properties of the config store\<close>

lemma loadConfig_fresh:
  "loadConfig \<lparr> configCache = None, disk = dk \<rparr> =
     (migrate (case dk of None \<Rightarrow> emptyDocument | Some d \<Rightarrow> d),
      \<lparr> configCache = Some (migrate (case dk of None \<Rightarrow> emptyDocument | Some d \<Rightarrow> d)),
        disk = dk \<rparr>)"
  by (simp add: loadConfig_def Let_def)

text \<open>
  C8. Loading a document without \<open>markdownMode\<close> (absent, or any falsy value) that
  holds the legacy boolean \<open>markdownEnabled\<close> gives \<open>markdownMode = "full"\<close> for \<open>true\<close>
  and \<open>"off"\<close> for \<open>false\<close>.
\<close>

theorem C8_markdown_migration:
  assumes "\<not> truthy (d_markdownMode d)" and "d_markdownEnabled d = JBool b"
  shows "markdownMode (fst (loadConfig \<lparr> configCache = None, disk = Some d \<rparr>))
           = JStr (if b then ''full'' else ''off'')"
  using assms by (simp add: loadConfig_fresh migrate_def Let_def)

theorem C8_markdown_migration_witness:
  "\<not> truthy (d_markdownMode (emptyDocument\<lparr> d_markdownEnabled := JBool False \<rparr>))
   \<and> d_markdownEnabled (emptyDocument\<lparr> d_markdownEnabled := JBool False \<rparr>) = JBool False
   \<and> markdownMode (fst (loadConfig \<lparr> configCache = None,
          disk = Some (emptyDocument\<lparr> d_markdownEnabled := JBool False \<rparr>) \<rparr>)) = JStr ''off''"
proof -
  have h1: "\<not> truthy (d_markdownMode (emptyDocument\<lparr> d_markdownEnabled := JBool False \<rparr>))"
    by (simp add: emptyDocument_def)
  have h2: "d_markdownEnabled (emptyDocument\<lparr> d_markdownEnabled := JBool False \<rparr>) = JBool False"
    by simp
  show ?thesis using h1 h2 C8_markdown_migration [OF h1 h2] by simp
qed

subsection \<open>Properties of the input-length ceiling\<close>

lemma slice0_length: "0 \<le> n \<Longrightarrow> int (length (slice0 t n)) \<le> n"
  by (simp add: slice0_def)

lemma slice0_slice0: "m \<le> n \<Longrightarrow> 0 \<le> m \<Longrightarrow> slice0 (slice0 t n) m = slice0 t m"
  by (simp add: slice0_def min_def)

lemma calls_scheduleHidePopup: "calls (scheduleHidePopup sendOk s) = calls s"
  by (simp add: scheduleHidePopup_def finalizeHidePopup_def split: option.splits)

lemma new_calls_runSummary:
  "drop (length (calls s)) (calls (runSummary cfg preset captured now sendOk s)) = []
   \<or> drop (length (calls s)) (calls (runSummary cfg preset captured now sendOk s)) =
       [GatewayCall (active cfg) (key_c (providerCfg cfg)) (model_c (providerCfg cfg))
          (contextualPrompt cfg preset)
          (slice0 (if captured = [] then ''(No selection)'' else captured)
             (effectiveMaxLength cfg preset))]"
  by (simp add: runSummary_def Let_def calls_scheduleHidePopup showPopupNearCursor_def
        split: option.splits)

lemma effectiveMaxLength_limited:
  "\<not> truthy (unlimitedInput cfg) \<Longrightarrow> effectiveMaxLength cfg preset = maxInputChars cfg"
  by (simp add: effectiveMaxLength_def getMaxInputLength_def)

lemma configOf_eq: "configOf d = migrate d"
  by (simp add: configOf_def loadConfig_def Let_def)

lemma example_prompt_length: "length DEFAULT_SUMMARY_PROMPT = 89"
  by (simp add: DEFAULT_SUMMARY_PROMPT_def)

text \<open>
  C1 (amended). With unlimited input off and a configured \<open>maxInputChars\<close> that is
  not negative, the effective ceiling is \<open>maxInputChars\<close>, and every gateway call a
  run makes is given the selection sliced to that ceiling, which is at most
  \<open>maxInputChars\<close> characters long.
\<close>

theorem C1_input_bounded:
  assumes "\<not> truthy (unlimitedInput cfg)" and "0 \<le> maxInputChars cfg"
  shows "effectiveMaxLength cfg preset = maxInputChars cfg
     \<and> list_all (\<lambda>c. userText c = slice0 (if captured = [] then ''(No selection)'' else captured)
                                    (maxInputChars cfg)
                      \<and> int (length (userText c)) \<le> maxInputChars cfg)
         (drop (length (calls s)) (calls (runSummary cfg preset captured now sendOk s)))"
proof -
  have e: "effectiveMaxLength cfg preset = maxInputChars cfg"
    using assms(1) by (rule effectiveMaxLength_limited)
  show ?thesis
    using new_calls_runSummary [of s cfg preset captured now sendOk] assms(2)
    by (auto simp: e slice0_length)
qed

lemma capped_config:
  "unlimitedInput (configOf (exampleDocument\<lparr> d_maxInputChars := Some m \<rparr>)) = JBool False
   \<and> maxInputChars (configOf (exampleDocument\<lparr> d_maxInputChars := Some m \<rparr>))
       = (if m = 0 then 25000 else m)
   \<and> activeDocumentSession (configOf (exampleDocument\<lparr> d_maxInputChars := Some m \<rparr>)) = None
   \<and> active (configOf (exampleDocument\<lparr> d_maxInputChars := Some m \<rparr>)) = ''openai''
   \<and> providerCfg (configOf (exampleDocument\<lparr> d_maxInputChars := Some m \<rparr>))
       = \<lparr> key_c = ''sk-test'', model_c = ''gpt-4'' \<rparr>"
  by (simp add: configOf_eq exampleDocument_def emptyDocument_def migrate_def providerCfg_def
        ensureProvider_def Let_def MAX_TEXT_LEN_def)

lemma capped_run:
  "map userText (calls (runSummary (configOf (exampleDocument\<lparr> d_maxInputChars := Some m \<rparr>))
       None ''hello world'' 1000 True initialApp))
     = [slice0 ''hello world'' (if m = 0 then 25000 else m)]"
  by (simp add: runSummary_def capped_config initialApp_def Let_def showPopupNearCursor_def
        effectiveMaxLength_limited)

theorem C1_input_bounded_witness:
  "\<not> truthy (unlimitedInput (configOf (exampleDocument\<lparr> d_maxInputChars := Some 5 \<rparr>)))
   \<and> 0 \<le> maxInputChars (configOf (exampleDocument\<lparr> d_maxInputChars := Some 5 \<rparr>))
   \<and> effectiveMaxLength (configOf (exampleDocument\<lparr> d_maxInputChars := Some 5 \<rparr>)) None = 5
   \<and> map userText (drop (length (calls initialApp))
        (calls (runSummary (configOf (exampleDocument\<lparr> d_maxInputChars := Some 5 \<rparr>))
           None ''hello world'' 1000 True initialApp))) = [''hello'']"
proof -
  have h1: "\<not> truthy (unlimitedInput (configOf (exampleDocument\<lparr> d_maxInputChars := Some 5 \<rparr>)))"
    by (simp add: capped_config)
  have h2: "0 \<le> maxInputChars (configOf (exampleDocument\<lparr> d_maxInputChars := Some 5 \<rparr>))"
    by (simp add: capped_config)
  have r: "map userText (calls (runSummary (configOf (exampleDocument\<lparr> d_maxInputChars := Some 5 \<rparr>))
       None ''hello world'' 1000 True initialApp)) = [''hello'']"
    by (simp add: capped_run slice0_def)
  show ?thesis
    using h1 h2 r C1_input_bounded [OF h1 h2, of None "''hello world''" initialApp 1000 True]
    by (simp add: capped_config initialApp_def)
qed

theorem C1_negative_cap_counterexample:
  "unlimitedInput (configOf (exampleDocument\<lparr> d_maxInputChars := Some (- 1) \<rparr>)) = JBool False
   \<and> maxInputChars (configOf (exampleDocument\<lparr> d_maxInputChars := Some (- 1) \<rparr>)) = - 1
   \<and> map userText (calls (runSummary (configOf (exampleDocument\<lparr> d_maxInputChars := Some (- 1) \<rparr>))
        None ''hello world'' 1000 True initialApp)) = [''hello worl'']
   \<and> \<not> int (length ''hello worl'')
         \<le> maxInputChars (configOf (exampleDocument\<lparr> d_maxInputChars := Some (- 1) \<rparr>))"
  by (simp add: capped_config capped_run slice0_def)

lemma ceil_div4: "(int n + 3) div 4 = \<lceil>real n / 4\<rceil>"
proof -
  have "\<lceil>real n / 4\<rceil> = \<lceil>real_of_int (int n) / real_of_int 4\<rceil>" by simp
  also have "\<dots> = - (- int n div 4)" by (rule ceiling_divide_eq_div)
  also have "\<dots> = (int n + 3) div 4" by presburger
  finally show ?thesis by simp
qed

lemma ceil_tenth: "(L + 9) div 10 = \<lceil>0.1 * real_of_int L\<rceil>"
proof -
  have "\<lceil>0.1 * real_of_int L\<rceil> = \<lceil>real_of_int L / real_of_int 10\<rceil>" by simp
  also have "\<dots> = - (- L div 10)" by (rule ceiling_divide_eq_div)
  also have "\<dots> = (L + 9) div 10" by presburger
  finally show ?thesis by simp
qed

lemma floor_four_times:
  "\<lfloor>4 * (real_of_int a - real_of_int b - real_of_int c - real_of_int d)\<rfloor> = (a - b - c - d) * 4"
proof -
  have "4 * (real_of_int a - real_of_int b - real_of_int c - real_of_int d)
          = real_of_int ((a - b - c - d) * 4)" by simp
  then show ?thesis by (simp only: floor_of_int)
qed

text \<open>
  C2 (amended). With unlimited input on and a model whose context limit \<open>L\<close> is in
  the table, the effective ceiling is
  \<open>max(5000, floor(4 * (L - systemPromptTokens - maxOutputTokens - ceil(0.1*L))))\<close>,
  where \<open>systemPromptTokens = ceil(length of the contextual prompt / 4)\<close>: the safety
  margin is rounded up to a whole token.
\<close>

theorem C2_unlimited_ceiling:
  assumes "truthy (unlimitedInput cfg)"
    and "MODEL_CONTEXT_LIMITS (if model_c (providerCfg cfg) = [] then PROVIDER_DEFAULT_MODELS (active cfg)
                               else model_c (providerCfg cfg)) = Some L"
  shows "effectiveMaxLength cfg preset =
           max 5000 \<lfloor>4 * (real_of_int L
                 - real_of_int \<lceil>real (length (contextualPrompt cfg preset)) / 4\<rceil>
                 - real_of_int (maxOutputTokens cfg)
                 - real_of_int \<lceil>0.1 * real_of_int L\<rceil>)\<rfloor>"
  using assms
  by (simp only: floor_four_times ceil_div4 [symmetric] ceil_tenth [symmetric])
     (simp add: effectiveMaxLength_def getMaxInputLength_def Let_def)

lemma unlimited_config:
  "unlimitedInput (configOf (exampleDocument\<lparr> d_unlimitedInput := JBool True \<rparr>)) = JBool True
   \<and> maxOutputTokens (configOf (exampleDocument\<lparr> d_unlimitedInput := JBool True \<rparr>)) = 800
   \<and> activeDocumentSession (configOf (exampleDocument\<lparr> d_unlimitedInput := JBool True \<rparr>)) = None
   \<and> active (configOf (exampleDocument\<lparr> d_unlimitedInput := JBool True \<rparr>)) = ''openai''
   \<and> providerCfg (configOf (exampleDocument\<lparr> d_unlimitedInput := JBool True \<rparr>))
       = \<lparr> key_c = ''sk-test'', model_c = ''gpt-4'' \<rparr>"
  by (simp add: configOf_eq exampleDocument_def emptyDocument_def migrate_def providerCfg_def
        ensureProvider_def Let_def)

lemma gpt4_limit: "MODEL_CONTEXT_LIMITS ''gpt-4'' = Some 8192"
  by (simp add: MODEL_CONTEXT_LIMITS_def)

lemma unlimited_prompt:
  "length (contextualPrompt (configOf (exampleDocument\<lparr> d_unlimitedInput := JBool True \<rparr>)) None) = 89"
  by (simp add: contextualPrompt_def unlimited_config example_prompt_length)

lemma unlimited_ceiling_value:
  "effectiveMaxLength (configOf (exampleDocument\<lparr> d_unlimitedInput := JBool True \<rparr>)) None = 26196"
  by (simp add: effectiveMaxLength_def getMaxInputLength_def unlimited_config gpt4_limit
        unlimited_prompt Let_def)

theorem C2_unlimited_ceiling_witness:
  "truthy (unlimitedInput (configOf (exampleDocument\<lparr> d_unlimitedInput := JBool True \<rparr>)))
   \<and> MODEL_CONTEXT_LIMITS
        (model_c (providerCfg (configOf (exampleDocument\<lparr> d_unlimitedInput := JBool True \<rparr>))))
       = Some 8192
   \<and> effectiveMaxLength (configOf (exampleDocument\<lparr> d_unlimitedInput := JBool True \<rparr>)) None
       = max 5000 \<lfloor>4 * (real_of_int 8192 - real_of_int \<lceil>real 89 / 4\<rceil> - real_of_int 800
                          - real_of_int \<lceil>0.1 * real_of_int 8192\<rceil>)\<rfloor>"
proof -
  have h1: "truthy (unlimitedInput (configOf (exampleDocument\<lparr> d_unlimitedInput := JBool True \<rparr>)))"
    by (simp add: unlimited_config)
  have h2: "MODEL_CONTEXT_LIMITS
      (if model_c (providerCfg (configOf (exampleDocument\<lparr> d_unlimitedInput := JBool True \<rparr>))) = []
       then PROVIDER_DEFAULT_MODELS (active (configOf (exampleDocument\<lparr> d_unlimitedInput := JBool True \<rparr>)))
       else model_c (providerCfg (configOf (exampleDocument\<lparr> d_unlimitedInput := JBool True \<rparr>))))
      = Some 8192"
    by (simp add: unlimited_config gpt4_limit)
  show ?thesis
    using h1 C2_unlimited_ceiling [OF h1 h2, of None]
    by (simp add: unlimited_prompt unlimited_config gpt4_limit)
qed

theorem C2_margin_counterexample:
  "truthy (unlimitedInput (configOf (exampleDocument\<lparr> d_unlimitedInput := JBool True \<rparr>)))
   \<and> MODEL_CONTEXT_LIMITS
        (model_c (providerCfg (configOf (exampleDocument\<lparr> d_unlimitedInput := JBool True \<rparr>))))
       = Some 8192
   \<and> effectiveMaxLength (configOf (exampleDocument\<lparr> d_unlimitedInput := JBool True \<rparr>)) None = 26196
   \<and> specCeiling 8192
        \<lceil>real (length (contextualPrompt (configOf (exampleDocument\<lparr> d_unlimitedInput := JBool True \<rparr>)) None)) / 4\<rceil>
        (maxOutputTokens (configOf (exampleDocument\<lparr> d_unlimitedInput := JBool True \<rparr>))) = 26199"
  by (simp add: unlimited_config gpt4_limit unlimited_ceiling_value unlimited_prompt specCeiling_def)

subsection \<open>Properties of the provider gateway\<close>

lemma buildRequest_userText:
  assumes "buildRequest cfg provider key model systemPrompt text = Inr req"
  shows "userTextOf (if systemPrompt = [] then DEFAULT_SUMMARY_PROMPT else systemPrompt) (body req)
           = take 25000 text"
  using assms by (auto simp: buildRequest_def Let_def slice0_def MAX_TEXT_LEN_def split: if_splits)

lemma buildRequest_slice0:
  "MAX_TEXT_LEN \<le> n \<Longrightarrow>
   buildRequest cfg provider key model systemPrompt (slice0 text n)
     = buildRequest cfg provider key model systemPrompt text"
  by (simp add: buildRequest_def Let_def slice0_slice0 MAX_TEXT_LEN_def)

text \<open>
  C5. For every provider, text and \<open>fetch\<close>, the gateway hands to \<open>fetch\<close> only a
  request whose user text is the first 25,000 characters of the text it was given:
  a \<open>fetch\<close> that refuses every other request gives the same result. A text already
  cut by the orchestrator at a ceiling of 25,000 or more gives the same result as
  the uncut text.
\<close>

theorem C5_gateway_text_bounded:
  assumes "MAX_TEXT_LEN \<le> n"
  shows "summarizeWithProvider cfg fetch provider key model systemPrompt text
           = summarizeWithProvider cfg
               (\<lambda>req. if userTextOf (if systemPrompt = [] then DEFAULT_SUMMARY_PROMPT else systemPrompt)
                            (body req) = take 25000 text
                          \<and> length (userTextOf (if systemPrompt = [] then DEFAULT_SUMMARY_PROMPT
                                                else systemPrompt) (body req)) \<le> 25000
                       then fetch req else Inl ''user text over the limit'')
               provider key model systemPrompt text
       \<and> summarizeWithProvider cfg fetch provider key model systemPrompt (slice0 text n)
           = summarizeWithProvider cfg fetch provider key model systemPrompt text"
proof -
  have a: "summarizeWithProvider cfg fetch provider key model systemPrompt text
           = summarizeWithProvider cfg
               (\<lambda>req. if userTextOf (if systemPrompt = [] then DEFAULT_SUMMARY_PROMPT else systemPrompt)
                            (body req) = take 25000 text
                          \<and> length (userTextOf (if systemPrompt = [] then DEFAULT_SUMMARY_PROMPT
                                                else systemPrompt) (body req)) \<le> 25000
                       then fetch req else Inl ''user text over the limit'')
               provider key model systemPrompt text"
  proof (cases "buildRequest cfg provider key model systemPrompt text")
    case (Inl e)
    then show ?thesis by (simp add: summarizeWithProvider_def)
  next
    case (Inr req)
    from buildRequest_userText [OF Inr] show ?thesis
      by (simp add: summarizeWithProvider_def Inr)
  qed
  have b: "summarizeWithProvider cfg fetch provider key model systemPrompt (slice0 text n)
           = summarizeWithProvider cfg fetch provider key model systemPrompt text"
    by (simp add: summarizeWithProvider_def buildRequest_slice0 [OF assms])
  from a b show ?thesis by (rule conjI)
qed

lemma example_maxOutputTokens: "maxOutputTokens exampleConfig = 800"
  by (simp add: exampleConfig_def configOf_eq migrate_def exampleDocument_def emptyDocument_def Let_def)

text \<open>A \<open>fetch\<close> that rejects with the user text of the request it is given.\<close>

lemma gemini_echo:
  "summarizeWithProvider exampleConfig (\<lambda>req. Inl (userTextOf ''Explain'' (body req)))
      ''gemini'' ''k'' [] ''Explain'' (replicate 30000 CHR ''a'')
     = Inl (replicate 25000 CHR ''a'')"
  by (simp add: summarizeWithProvider_def buildRequest_def Let_def slice0_def MAX_TEXT_LEN_def
        PROVIDER_DEFAULT_MODELS_def stripGenerateContent_def example_maxOutputTokens)

theorem C5_gateway_text_bounded_witness:
  "MAX_TEXT_LEN \<le> 28000
   \<and> summarizeWithProvider exampleConfig (\<lambda>req. Inl (userTextOf ''Explain'' (body req)))
        ''gemini'' ''k'' [] ''Explain'' (replicate 30000 CHR ''a'')
       = Inl (replicate 25000 CHR ''a'')
   \<and> summarizeWithProvider exampleConfig (\<lambda>req. Inl (userTextOf ''Explain'' (body req)))
        ''gemini'' ''k'' [] ''Explain'' (slice0 (replicate 30000 CHR ''a'') 28000)
       = Inl (replicate 25000 CHR ''a'')"
proof -
  have h: "MAX_TEXT_LEN \<le> 28000" by (simp add: MAX_TEXT_LEN_def)
  note t = C5_gateway_text_bounded [OF h, of exampleConfig
      "\<lambda>req. Inl (userTextOf ''Explain'' (body req))" "''gemini''" "''k''" "[]" "''Explain''"
      "replicate 30000 CHR ''a''"]
  from t have "summarizeWithProvider exampleConfig (\<lambda>req. Inl (userTextOf ''Explain'' (body req)))
        ''gemini'' ''k'' [] ''Explain'' (slice0 (replicate 30000 CHR ''a'') 28000)
       = summarizeWithProvider exampleConfig (\<lambda>req. Inl (userTextOf ''Explain'' (body req)))
        ''gemini'' ''k'' [] ''Explain'' (replicate 30000 CHR ''a'')"
    by (rule conjunct2)
  then show ?thesis using h by (simp add: gemini_echo)
qed

lemma showInt_401: "showInt 401 = ''401''"
  by code_simp

text \<open>
  C10. For each of the five providers, when a request was sent (the key is not
  empty) and the response has a status outside 200..299, the call fails with the
  error message \<open>HTTP <status>: <body>\<close>, the body cut to its first 160 characters.
\<close>

theorem C10_http_error:
  assumes "provider \<in> {''openai'', ''groq'', ''anthropic'', ''gemini'', ''grok''}"
    and "key \<noteq> []"
    and "\<not> ok res"
  shows "summarizeWithProvider cfg (\<lambda>req. Inr res) provider key model systemPrompt text
           = Inl (''HTTP '' @ showInt (int (status res)) @ '': '' @ take 160 (text_r res))"
  using assms
  by (auto simp: summarizeWithProvider_def buildRequest_def Let_def slice0_def)

theorem C10_http_error_witness:
  "''anthropic'' \<in> {''openai'', ''groq'', ''anthropic'', ''gemini'', ''grok''}
   \<and> ''k'' \<noteq> []
   \<and> \<not> ok \<lparr> status = 401, text_r = ''invalid x-api-key'', json = Inl ''no json'' \<rparr>
   \<and> summarizeWithProvider exampleConfig
        (\<lambda>req. Inr \<lparr> status = 401, text_r = ''invalid x-api-key'', json = Inl ''no json'' \<rparr>)
        ''anthropic'' ''k'' [] [] ''some text''
       = Inl ''HTTP 401: invalid x-api-key''"
proof -
  have h1: "''anthropic'' \<in> {''openai'', ''groq'', ''anthropic'', ''gemini'', ''grok''}" by simp
  have h2: "''k'' \<noteq> []" by simp
  have h3: "\<not> ok \<lparr> status = 401, text_r = ''invalid x-api-key'', json = Inl ''no json'' \<rparr>"
    by (simp add: ok_def)
  show ?thesis
    using h3 C10_http_error [OF h1 h2 h3, of exampleConfig "[]" "[]" "''some text''"]
    by (simp add: showInt_401)
qed

subsection \<open>Properties of selection capture\<close>

lemma captureSelectionText_fallback:
  assumes "copy env = Copied (clipboardBefore env) \<or> copy env = Threw \<or> \<not> autoCopySelection cfg"
  shows "captureSelectionText cfg env = Some (trim (clipboardBefore env), clipboardBefore env)"
  using assms by (auto simp: captureSelectionText_def finishCapture_def Let_def)

lemma example_autoCopy: "autoCopySelection exampleConfig"
  by (simp add: exampleConfig_def configOf_eq migrate_def exampleDocument_def emptyDocument_def
        Let_def)

text \<open>
  C6 at a failing input. With auto-copy on, on Linux, when the copy tool cannot be
  spawned, the simulated copy has failed and the clipboard is as it was, but capture
  does not fall back to the clipboard contents: its promise never settles.
\<close>

theorem C6_failed_spawn_never_resolves:
  "autoCopySelection exampleConfig
   \<and> captureSelectionText exampleConfig
        \<lparr> clipboardBefore = ''kept text'', platform = Linux, copy = NeverExits \<rparr> = None
   \<and> captureSelectionText exampleConfig
        \<lparr> clipboardBefore = ''kept text'', platform = Linux, copy = Copied ''kept text'' \<rparr>
       = Some (''kept text'', ''kept text'')"
  by (simp add: example_autoCopy captureSelectionText_def finishCapture_def trim_def isSpace_def
        Let_def)

subsection \<open>Properties of the popup lifecycle\<close>

text \<open>
  C3. With a key configured and the popup visible and not already fading, a
  trigger whose fingerprint equals the last one, arriving when no request is in
  flight (or more than 800 ms after the popup was shown), starts the hide sequence
  and nothing else: the fade-out message is sent and the fading flag raised, or,
  when sending throws, the window is hidden at once. No gateway call is made and no
  other part of the state changes.
\<close>

theorem C3_repeat_trigger_hides:
  assumes "key_c (providerCfg cfg) \<noteq> []"
    and "popupWindow s = Some True"
    and "\<not> popupFading s"
    and "hashString ((if captured = [] then ''(No selection)'' else captured) @ ''|'' @ presetId preset)
           = lastSummaryInputHash s"
    and "\<not> summaryInFlight s \<or> now - lastPopupShowTs s > 800"
  shows "runSummary cfg preset captured now sendOk s =
           (if sendOk then s\<lparr> sent := sent s @ [StartFadeOut], popupFading := True \<rparr>
            else s\<lparr> popupWindow := Some False, popupFading := False, popupAutoHideTimer := False \<rparr>)
       \<and> calls (runSummary cfg preset captured now sendOk s) = calls s
       \<and> summaryInFlight (runSummary cfg preset captured now sendOk s) = summaryInFlight s
       \<and> lastSummaryInputHash (runSummary cfg preset captured now sendOk s) = lastSummaryInputHash s
       \<and> showCount (runSummary cfg preset captured now sendOk s) = showCount s"
proof -
  have r: "runSummary cfg preset captured now sendOk s = scheduleHidePopup sendOk s"
    using assms by (auto simp: runSummary_def Let_def)
  show ?thesis
    unfolding r using assms(2,3)
    by (simp add: scheduleHidePopup_def finalizeHidePopup_def)
qed

lemma example_provider: "providerCfg exampleConfig = \<lparr> key_c = ''sk-test'', model_c = ''gpt-4'' \<rparr>"
  by (simp add: exampleConfig_def configOf_eq exampleDocument_def emptyDocument_def migrate_def
        providerCfg_def ensureProvider_def Let_def)

lemma example_fields:
  "active exampleConfig = ''openai'' \<and> unlimitedInput exampleConfig = JBool False
   \<and> maxInputChars exampleConfig = 25000 \<and> activeDocumentSession exampleConfig = None"
  by (simp add: exampleConfig_def configOf_eq exampleDocument_def emptyDocument_def migrate_def
        Let_def MAX_TEXT_LEN_def)

lemma example_limit: "effectiveMaxLength exampleConfig None = 25000"
  by (simp add: effectiveMaxLength_def getMaxInputLength_def example_fields)

lemma example_prompt: "contextualPrompt exampleConfig None = DEFAULT_SUMMARY_PROMPT"
  by (simp add: contextualPrompt_def example_fields)

lemma firstRun_eq:
  "firstRun =
     \<lparr> popupWindow = Some True, popupFading = False, popupAutoHideTimer = False,
       lastSelectionText = ''hello'', lastSummaryInputHash = hashString ''hello|default'',
       summaryInFlight = True, lastPopupShowTs = 1000,
       sent = [Summary ''Working~'' ''hello''],
       calls = [GatewayCall ''openai'' ''sk-test'' ''gpt-4'' DEFAULT_SUMMARY_PROMPT ''hello''],
       showCount = 1 \<rparr>"
  by (simp add: firstRun_def runSummary_def example_provider example_fields example_limit
        example_prompt initialApp_def Let_def showPopupNearCursor_def presetId_def slice0_def)

text \<open>The state after the first request of \<open>firstRun\<close> has settled with a summary.\<close>

lemma settled_eq:
  "runSummary_settled ''hello'' (Inr ''A greeting.'') firstRun =
     \<lparr> popupWindow = Some True, popupFading = False, popupAutoHideTimer = False,
       lastSelectionText = ''hello'', lastSummaryInputHash = hashString ''hello|default'',
       summaryInFlight = False, lastPopupShowTs = 1000,
       sent = [Summary ''Working~'' ''hello'', SummaryResult ''A greeting.'' ''hello''],
       calls = [GatewayCall ''openai'' ''sk-test'' ''gpt-4'' DEFAULT_SUMMARY_PROMPT ''hello''],
       showCount = 1 \<rparr>"
  by (simp add: firstRun_eq runSummary_settled_def)

theorem C3_repeat_trigger_hides_witness:
  "key_c (providerCfg exampleConfig) \<noteq> []
   \<and> popupWindow (runSummary_settled ''hello'' (Inr ''A greeting.'') firstRun) = Some True
   \<and> \<not> popupFading (runSummary_settled ''hello'' (Inr ''A greeting.'') firstRun)
   \<and> hashString ((if ''hello'' = [] then ''(No selection)'' else ''hello'') @ ''|'' @ presetId None)
       = lastSummaryInputHash (runSummary_settled ''hello'' (Inr ''A greeting.'') firstRun)
   \<and> \<not> summaryInFlight (runSummary_settled ''hello'' (Inr ''A greeting.'') firstRun)
   \<and> 2000 - lastPopupShowTs (runSummary_settled ''hello'' (Inr ''A greeting.'') firstRun) > 800
   \<and> runSummary exampleConfig None ''hello'' 2000 True
        (runSummary_settled ''hello'' (Inr ''A greeting.'') firstRun)
       = \<lparr> popupWindow = Some True, popupFading = True, popupAutoHideTimer = False,
           lastSelectionText = ''hello'', lastSummaryInputHash = hashString ''hello|default'',
           summaryInFlight = False, lastPopupShowTs = 1000,
           sent = [Summary ''Working~'' ''hello'', SummaryResult ''A greeting.'' ''hello'',
                   StartFadeOut],
           calls = [GatewayCall ''openai'' ''sk-test'' ''gpt-4'' DEFAULT_SUMMARY_PROMPT ''hello''],
           showCount = 1 \<rparr>
   \<and> runSummary exampleConfig None ''hello'' 2000 False
        (runSummary_settled ''hello'' (Inr ''A greeting.'') firstRun)
       = \<lparr> popupWindow = Some False, popupFading = False, popupAutoHideTimer = False,
           lastSelectionText = ''hello'', lastSummaryInputHash = hashString ''hello|default'',
           summaryInFlight = False, lastPopupShowTs = 1000,
           sent = [Summary ''Working~'' ''hello'', SummaryResult ''A greeting.'' ''hello''],
           calls = [GatewayCall ''openai'' ''sk-test'' ''gpt-4'' DEFAULT_SUMMARY_PROMPT ''hello''],
           showCount = 1 \<rparr>"
proof -
  have h1: "key_c (providerCfg exampleConfig) \<noteq> []" by (simp add: example_provider)
  have h2: "popupWindow (runSummary_settled ''hello'' (Inr ''A greeting.'') firstRun) = Some True"
    by (simp add: settled_eq)
  have h3: "\<not> popupFading (runSummary_settled ''hello'' (Inr ''A greeting.'') firstRun)"
    by (simp add: settled_eq)
  have h4: "hashString ((if ''hello'' = [] then ''(No selection)'' else ''hello'') @ ''|'' @ presetId None)
       = lastSummaryInputHash (runSummary_settled ''hello'' (Inr ''A greeting.'') firstRun)"
    by (simp add: settled_eq presetId_def)
  have h5: "\<not> summaryInFlight (runSummary_settled ''hello'' (Inr ''A greeting.'') firstRun)"
    by (simp add: settled_eq)
  have h6: "2000 - lastPopupShowTs (runSummary_settled ''hello'' (Inr ''A greeting.'') firstRun) > 800"
    by (simp add: settled_eq)
  have h56: "\<not> summaryInFlight (runSummary_settled ''hello'' (Inr ''A greeting.'') firstRun)
            \<or> 2000 - lastPopupShowTs (runSummary_settled ''hello'' (Inr ''A greeting.'') firstRun) > 800"
    using h5 by simp
  note t = C3_repeat_trigger_hides [OF h1 h2 h3 h4 h56]
  have a: "runSummary exampleConfig None ''hello'' 2000 True
        (runSummary_settled ''hello'' (Inr ''A greeting.'') firstRun)
       = \<lparr> popupWindow = Some True, popupFading = True, popupAutoHideTimer = False,
           lastSelectionText = ''hello'', lastSummaryInputHash = hashString ''hello|default'',
           summaryInFlight = False, lastPopupShowTs = 1000,
           sent = [Summary ''Working~'' ''hello'', SummaryResult ''A greeting.'' ''hello'',
                   StartFadeOut],
           calls = [GatewayCall ''openai'' ''sk-test'' ''gpt-4'' DEFAULT_SUMMARY_PROMPT ''hello''],
           showCount = 1 \<rparr>"
    using t [of True] by (simp add: settled_eq)
  have b: "runSummary exampleConfig None ''hello'' 2000 False
        (runSummary_settled ''hello'' (Inr ''A greeting.'') firstRun)
       = \<lparr> popupWindow = Some False, popupFading = False, popupAutoHideTimer = False,
           lastSelectionText = ''hello'', lastSummaryInputHash = hashString ''hello|default'',
           summaryInFlight = False, lastPopupShowTs = 1000,
           sent = [Summary ''Working~'' ''hello'', SummaryResult ''A greeting.'' ''hello''],
           calls = [GatewayCall ''openai'' ''sk-test'' ''gpt-4'' DEFAULT_SUMMARY_PROMPT ''hello''],
           showCount = 1 \<rparr>"
    using t [of False] by (simp add: settled_eq)
  show ?thesis by (intro conjI h1 h2 h3 h4 h5 h6 a b)
qed

text \<open>
  C4 at a failing input. A second trigger on the same text and preset, 400 ms after
  the popup was shown and with the first request in flight, does not hide or show
  the popup again, but it sends the "working" message again and makes a second
  gateway call, equal to the first, for which a request is built.
\<close>

theorem C4_repeat_trigger_calls_again:
  "popupWindow firstRun = Some True
   \<and> summaryInFlight firstRun
   \<and> lastSummaryInputHash firstRun = hashString (''hello'' @ ''|'' @ presetId None)
   \<and> 1400 - lastPopupShowTs firstRun = 400
   \<and> calls firstRun = [GatewayCall ''openai'' ''sk-test'' ''gpt-4'' DEFAULT_SUMMARY_PROMPT ''hello'']
   \<and> calls secondRun =
        [GatewayCall ''openai'' ''sk-test'' ''gpt-4'' DEFAULT_SUMMARY_PROMPT ''hello'',
         GatewayCall ''openai'' ''sk-test'' ''gpt-4'' DEFAULT_SUMMARY_PROMPT ''hello'']
   \<and> sent secondRun = [Summary ''Working~'' ''hello'', Summary ''Working~'' ''hello'']
   \<and> popupWindow secondRun = Some True
   \<and> popupFading secondRun = False
   \<and> showCount secondRun = 1
   \<and> requestOf exampleConfig
        (GatewayCall ''openai'' ''sk-test'' ''gpt-4'' DEFAULT_SUMMARY_PROMPT ''hello'')
       = Inr \<lparr> url = OpenAIChat,
               headers = [(''Content-Type'', ''application/json''),
                          (''Authorization'', ''Bearer sk-test'')],
               body = ChatCompletions ''gpt-4'' DEFAULT_SUMMARY_PROMPT ''hello'' 800 \<rparr>"
proof -
  have s: "secondRun = firstRun
      \<lparr> sent := [Summary ''Working~'' ''hello'', Summary ''Working~'' ''hello''],
        calls := [GatewayCall ''openai'' ''sk-test'' ''gpt-4'' DEFAULT_SUMMARY_PROMPT ''hello'',
                  GatewayCall ''openai'' ''sk-test'' ''gpt-4'' DEFAULT_SUMMARY_PROMPT ''hello''] \<rparr>"
    by (simp add: secondRun_def runSummary_def example_provider example_fields example_limit
          example_prompt firstRun_eq Let_def presetId_def slice0_def)
  have r: "requestOf exampleConfig
        (GatewayCall ''openai'' ''sk-test'' ''gpt-4'' DEFAULT_SUMMARY_PROMPT ''hello'')
       = Inr \<lparr> url = OpenAIChat,
               headers = [(''Content-Type'', ''application/json''),
                          (''Authorization'', ''Bearer sk-test'')],
               body = ChatCompletions ''gpt-4'' DEFAULT_SUMMARY_PROMPT ''hello'' 800 \<rparr>"
    by (simp add: buildRequest_def Let_def slice0_def MAX_TEXT_LEN_def example_maxOutputTokens
          DEFAULT_SUMMARY_PROMPT_def)
  show ?thesis
    using r by (simp add: s firstRun_eq presetId_def)
qed

subsection \<open>Properties of the default preset\<close>

lemma presetsAfterLoad_eq:
  "presetsAfterLoad dk =
     (if \<not> list_ex flagged (storedPresets dk)
      then defaultPreset (hotkeysAfterLoad dk) # storedPresets dk
      else storedPresets dk)"
  by (simp add: presetsAfterLoad_def hotkeysAfterLoad_def storedPresets_def loadConfig_fresh
        migrate_def Let_def emptyDocument_def split: option.splits)

lemma flagged_defaultPreset: "flagged (defaultPreset hk)"
  by (simp add: flagged_def defaultPreset_def)

lemma saveConfig_presets:
  "summaryPresets (fst (saveConfig (\<lambda>c. c\<lparr> summaryPresets := ps \<rparr>) st)) =
     (if \<not> list_ex flagged (take MAX_PRESETS ps)
      then defaultPreset (hotkeys (fst (loadConfig st))) # take MAX_PRESETS ps
      else take MAX_PRESETS ps)"
  by (cases st)
     (simp add: saveConfig_def loadConfig_def migrate_def toDocument_def Let_def
        split: option.splits prod.splits)

lemma loadConfig_after_saveConfig: "loadConfig (snd (saveConfig f st)) = saveConfig f st"
  by (cases st) (simp add: saveConfig_def loadConfig_def Let_def split: option.splits prod.splits)

lemma presetsAfterSet_eq:
  "presetsAfterSet freshId presets st =
     (let cfg = fst (loadConfig st);
          normalized = normalizedPresets freshId presets;
          normalized' = (if \<not> list_ex flagged normalized then currentDefault cfg # normalized
                         else normalized)
      in if \<not> list_ex flagged (take MAX_PRESETS normalized')
         then defaultPreset (hotkeys cfg) # take MAX_PRESETS normalized'
         else take MAX_PRESETS normalized')"
proof -
  obtain cfg st1 where l: "loadConfig st = (cfg, st1)" by (cases "loadConfig st")
  have st1: "loadConfig st1 = (cfg, st1)"
    using l by (cases st) (auto simp: loadConfig_def Let_def split: option.splits)
  show ?thesis
    unfolding presetsAfterSet_def setSummaryPresets_def
    by (simp add: l Let_def split_beta loadConfig_after_saveConfig saveConfig_presets st1)
qed

lemma flagged_currentDefault: "flagged (currentDefault cfg)"
  by (auto simp: currentDefault_def flagged_defaultPreset split: option.splits
        dest: find_Some_iff [THEN iffD1])

lemma length_normalizedPresets: "length (normalizedPresets freshId presets) \<le> MAX_PRESETS"
  by (simp add: normalizedPresets_def submitted_def length_enumerate split: option.splits)

lemma flagged_normalizePreset:
  "flagged (normalizePreset freshId ip)
     = (isDefault (snd ip) = JBool True \<and> id_p (snd ip) = ''default'')"
  by (simp add: normalizePreset_def flagged_def Let_def)

lemma list_ex_normalize_enumerate:
  "list_ex flagged (map (normalizePreset freshId) (enumerate n xs))
     = list_ex (\<lambda>p. isDefault p = JBool True \<and> id_p p = ''default'') xs"
  by (induction xs arbitrary: n) (simp_all add: flagged_normalizePreset)

lemma list_ex_normalizedPresets:
  "list_ex flagged (normalizedPresets freshId presets)
     = list_ex (\<lambda>p. isDefault p = JBool True \<and> id_p p = ''default'') (submitted presets)"
  unfolding normalizedPresets_def by (rule list_ex_normalize_enumerate)

lemma presetsAfterSet_flagged: "list_ex flagged (presetsAfterSet freshId presets st)"
proof (cases "list_ex flagged (normalizedPresets freshId presets)")
  case True
  moreover have "take MAX_PRESETS (normalizedPresets freshId presets)
                   = normalizedPresets freshId presets"
    using length_normalizedPresets [of freshId presets] by simp
  ultimately show ?thesis by (simp add: presetsAfterSet_eq Let_def)
next
  case False
  then show ?thesis
    by (simp add: presetsAfterSet_eq Let_def MAX_PRESETS_def flagged_currentDefault)
qed

lemma presetsAfterSet_unflagged:
  assumes "\<not> list_ex (\<lambda>p. isDefault p = JBool True \<and> id_p p = ''default'') (submitted presets)"
  shows "presetsAfterSet freshId presets st
           = currentDefault (fst (loadConfig st)) # take 9 (normalizedPresets freshId presets)
       \<and> filter flagged (presetsAfterSet freshId presets st) = [currentDefault (fst (loadConfig st))]"
proof -
  have n: "\<not> list_ex flagged (normalizedPresets freshId presets)"
    using assms by (simp add: list_ex_normalizedPresets)
  have eq: "presetsAfterSet freshId presets st
           = currentDefault (fst (loadConfig st)) # take 9 (normalizedPresets freshId presets)"
    using n by (simp add: presetsAfterSet_eq Let_def MAX_PRESETS_def flagged_currentDefault)
  have "filter flagged (take 9 (normalizedPresets freshId presets)) = []"
    using n by (auto simp: filter_empty_conv list_ex_iff dest: in_set_takeD)
  then show ?thesis by (simp add: eq flagged_currentDefault)
qed

lemma filter_flagged_normalize_enumerate:
  "length (filter flagged (map (normalizePreset freshId) (enumerate n xs)))
     = length (filter (\<lambda>p. isDefault p = JBool True \<and> id_p p = ''default'') xs)"
  by (induction xs arbitrary: n) (simp_all add: flagged_normalizePreset)

lemma list_ex_filter_length: "list_ex P xs \<Longrightarrow> 1 \<le> length (filter P xs)"
  by (induction xs) auto

lemma not_list_ex_filter: "\<not> list_ex P xs \<Longrightarrow> filter P xs = []"
  by (simp add: filter_empty_conv list_ex_iff)

lemma presetsAfterLoad_exactly_one:
  assumes "length (filter flagged (storedPresets dk)) \<le> 1"
  shows "length (filter flagged (presetsAfterLoad dk)) = 1"
proof (cases "list_ex flagged (storedPresets dk)")
  case True
  with list_ex_filter_length [OF True] assms show ?thesis
    by (simp add: presetsAfterLoad_eq)
next
  case False
  with not_list_ex_filter [OF False] show ?thesis
    by (simp add: presetsAfterLoad_eq flagged_defaultPreset)
qed

lemma presetsAfterSet_exactly_one:
  assumes "length (filter (\<lambda>p. isDefault p = JBool True \<and> id_p p = ''default'') (submitted presets)) \<le> 1"
  shows "length (filter flagged (presetsAfterSet freshId presets st)) = 1"
proof (cases "list_ex flagged (normalizedPresets freshId presets)")
  case True
  have t: "take MAX_PRESETS (normalizedPresets freshId presets) = normalizedPresets freshId presets"
    using length_normalizedPresets [of freshId presets] by simp
  have "length (filter flagged (normalizedPresets freshId presets)) \<le> 1"
    using assms unfolding normalizedPresets_def
    by (simp only: filter_flagged_normalize_enumerate)
  with list_ex_filter_length [OF True] True t show ?thesis
    by (simp add: presetsAfterSet_eq Let_def)
next
  case False
  then have "\<not> list_ex (\<lambda>p. isDefault p = JBool True \<and> id_p p = ''default'') (submitted presets)"
    by (simp add: list_ex_normalizedPresets)
  from presetsAfterSet_unflagged [OF this, of freshId st]
  have "filter flagged (presetsAfterSet freshId presets st) = [currentDefault (fst (loadConfig st))]"
    by (rule conjunct2)
  then show ?thesis by (simp only: list.size)
qed

text \<open>
  C7 (amended). When at most one of the stored presets (the first ten) is flagged
  as the default, exactly one preset is flagged after a load of the config file:
  with none flagged, the load puts the preset with id \<open>default\<close>, \<open>isDefault = true\<close>
  and the hotkey \<open>hotkeys.summarize\<close> in front of the stored ones; with one flagged,
  the stored presets are kept as they are. When at most one submitted preset (of the
  first ten) has \<open>isDefault === true\<close> and the id \<open>default\<close>, exactly one preset is
  flagged after the set-summary-presets handler: with none, the config's current
  default preset is put in front of the normalized presets.
\<close>

theorem C7_default_preset_present:
  "(length (filter flagged (storedPresets dk)) \<le> 1 \<longrightarrow>
        length (filter flagged (presetsAfterLoad dk)) = 1)
   \<and> (\<not> list_ex flagged (storedPresets dk) \<longrightarrow>
        presetsAfterLoad dk = defaultPreset (hotkeysAfterLoad dk) # storedPresets dk
        \<and> isDefault (defaultPreset (hotkeysAfterLoad dk)) = JBool True
        \<and> hotkey (defaultPreset (hotkeysAfterLoad dk)) = summarize (hotkeysAfterLoad dk))
   \<and> (list_ex flagged (storedPresets dk) \<longrightarrow> presetsAfterLoad dk = storedPresets dk)
   \<and> (length (filter (\<lambda>p. isDefault p = JBool True \<and> id_p p = ''default'') (submitted presets)) \<le> 1 \<longrightarrow>
        length (filter flagged (presetsAfterSet freshId presets st)) = 1)
   \<and> (\<not> list_ex (\<lambda>p. isDefault p = JBool True \<and> id_p p = ''default'') (submitted presets) \<longrightarrow>
        presetsAfterSet freshId presets st
          = currentDefault (fst (loadConfig st)) # take 9 (normalizedPresets freshId presets))"
proof -
  have b: "presetsAfterLoad dk = defaultPreset (hotkeysAfterLoad dk) # storedPresets dk
        \<and> isDefault (defaultPreset (hotkeysAfterLoad dk)) = JBool True
        \<and> hotkey (defaultPreset (hotkeysAfterLoad dk)) = summarize (hotkeysAfterLoad dk)"
    if "\<not> list_ex flagged (storedPresets dk)"
    using that by (simp add: presetsAfterLoad_eq defaultPreset_def)
  have c: "presetsAfterLoad dk = storedPresets dk" if "list_ex flagged (storedPresets dk)"
    using that by (simp add: presetsAfterLoad_eq)
  show ?thesis
    using b c presetsAfterLoad_exactly_one [of dk]
      presetsAfterSet_exactly_one [of presets freshId st]
      presetsAfterSet_unflagged [of presets freshId st]
    by blast
qed

lemma stored_example: "storedPresets (Some exampleDocument) = []"
  by (simp add: storedPresets_def exampleDocument_def emptyDocument_def)

lemma stored_oneDefault:
  "storedPresets (Some (emptyDocument\<lparr> d_summaryPresets := Some oneDefault \<rparr>)) = oneDefault"
  by (simp add: storedPresets_def oneDefault_def MAX_PRESETS_def)

lemma hotkeys_example:
  "hotkeysAfterLoad (Some exampleDocument) = \<lparr> summarize = ''CommandOrControl+Shift+Space'' \<rparr>"
  by (simp add: hotkeysAfterLoad_def loadConfig_fresh migrate_def exampleDocument_def
        emptyDocument_def Let_def)

lemma flagged_oneDefault: "filter flagged oneDefault = [hd oneDefault]"
  by (simp add: oneDefault_def explainPreset_def flagged_def)

theorem C7_default_preset_present_witness:
  "length (filter flagged (storedPresets (Some exampleDocument))) \<le> 1
   \<and> \<not> list_ex flagged (storedPresets (Some exampleDocument))
   \<and> presetsAfterLoad (Some exampleDocument)
       = [defaultPreset \<lparr> summarize = ''CommandOrControl+Shift+Space'' \<rparr>]
   \<and> length (filter flagged (storedPresets (Some (emptyDocument\<lparr> d_summaryPresets := Some oneDefault \<rparr>)))) \<le> 1
   \<and> list_ex flagged (storedPresets (Some (emptyDocument\<lparr> d_summaryPresets := Some oneDefault \<rparr>)))
   \<and> presetsAfterLoad (Some (emptyDocument\<lparr> d_summaryPresets := Some oneDefault \<rparr>)) = oneDefault
   \<and> length (filter flagged
        (presetsAfterLoad (Some (emptyDocument\<lparr> d_summaryPresets := Some oneDefault \<rparr>)))) = 1
   \<and> length (filter (\<lambda>p. isDefault p = JBool True \<and> id_p p = ''default'')
        (submitted (Some oneDefault))) \<le> 1
   \<and> length (filter flagged (presetsAfterSet (\<lambda>i. ''p_1'') (Some oneDefault)
        \<lparr> configCache = None, disk = Some exampleDocument \<rparr>)) = 1
   \<and> \<not> list_ex (\<lambda>p. isDefault p = JBool True \<and> id_p p = ''default'')
          (submitted (Some [explainPreset]))
   \<and> length (filter flagged (presetsAfterSet (\<lambda>i. ''p_1'') (Some [explainPreset])
        \<lparr> configCache = None, disk = Some exampleDocument \<rparr>)) = 1"
proof -
  have h1: "length (filter flagged (storedPresets (Some exampleDocument))) \<le> 1"
    and h2: "\<not> list_ex flagged (storedPresets (Some exampleDocument))"
    by (simp_all add: stored_example)
  have h3: "length (filter flagged
      (storedPresets (Some (emptyDocument\<lparr> d_summaryPresets := Some oneDefault \<rparr>)))) \<le> 1"
    by (simp add: stored_oneDefault flagged_oneDefault)
  have h4: "list_ex flagged (storedPresets (Some (emptyDocument\<lparr> d_summaryPresets := Some oneDefault \<rparr>)))"
    unfolding stored_oneDefault by (simp add: oneDefault_def flagged_def)
  have h5: "length (filter (\<lambda>p. isDefault p = JBool True \<and> id_p p = ''default'')
        (submitted (Some oneDefault))) \<le> 1"
    by (simp add: submitted_def MAX_PRESETS_def oneDefault_def explainPreset_def)
  have h6: "\<not> list_ex (\<lambda>p. isDefault p = JBool True \<and> id_p p = ''default'')
          (submitted (Some [explainPreset]))"
    by (simp add: submitted_def MAX_PRESETS_def explainPreset_def)
  have "length (filter (\<lambda>p. isDefault p = JBool True \<and> id_p p = ''default'')
        (submitted (Some [explainPreset]))) \<le> 1"
    using h6 by (simp add: not_list_ex_filter)
  note h7 = this
  note t1 = C7_default_preset_present [of "Some exampleDocument" "Some [explainPreset]"
      "\<lambda>i. ''p_1''" "\<lparr> configCache = None, disk = Some exampleDocument \<rparr>"]
  note t2 = C7_default_preset_present
      [of "Some (emptyDocument\<lparr> d_summaryPresets := Some oneDefault \<rparr>)" "Some oneDefault"
        "\<lambda>i. ''p_1''" "\<lparr> configCache = None, disk = Some exampleDocument \<rparr>"]
  have a: "presetsAfterLoad (Some exampleDocument)
       = [defaultPreset \<lparr> summarize = ''CommandOrControl+Shift+Space'' \<rparr>]"
    using t1 h2 by (simp add: stored_example hotkeys_example)
  have b: "presetsAfterLoad (Some (emptyDocument\<lparr> d_summaryPresets := Some oneDefault \<rparr>)) = oneDefault"
    using t2 h4 by (simp add: stored_oneDefault)
  have c: "length (filter flagged
        (presetsAfterLoad (Some (emptyDocument\<lparr> d_summaryPresets := Some oneDefault \<rparr>)))) = 1"
    using t2 h3 by blast
  have d: "length (filter flagged (presetsAfterSet (\<lambda>i. ''p_1'') (Some oneDefault)
        \<lparr> configCache = None, disk = Some exampleDocument \<rparr>)) = 1"
    using t2 h5 by blast
  have e: "length (filter flagged (presetsAfterSet (\<lambda>i. ''p_1'') (Some [explainPreset])
        \<lparr> configCache = None, disk = Some exampleDocument \<rparr>)) = 1"
    using t1 h7 by blast
  show ?thesis by (intro conjI h1 h2 a h3 h4 b c h5 d h6 e)
qed

lemma twoDefaults_load:
  "presetsAfterLoad (Some (emptyDocument\<lparr> d_summaryPresets := Some twoDefaults \<rparr>)) = twoDefaults"
  by (simp add: presetsAfterLoad_eq storedPresets_def twoDefaults_def MAX_PRESETS_def flagged_def)

lemma twoDefaults_set:
  "presetsAfterSet (\<lambda>i. ''p_1'') (Some twoDefaults) \<lparr> configCache = None, disk = None \<rparr>
     = twoDefaults"
  by (simp add: presetsAfterSet_eq normalizedPresets_def submitted_def twoDefaults_def
        MAX_PRESETS_def flagged_def normalizePreset_def normalizeAccelerator_def slice0_def Let_def)

lemma numericFlag_load:
  "presetsAfterLoad (Some (emptyDocument\<lparr> d_summaryPresets := Some numericFlag \<rparr>)) = numericFlag"
  by (simp add: presetsAfterLoad_eq storedPresets_def numericFlag_def MAX_PRESETS_def flagged_def)

theorem C7_two_defaults_counterexample:
  "countDefaults (presetsAfterLoad (Some (emptyDocument\<lparr> d_summaryPresets := Some twoDefaults \<rparr>))) = 2
   \<and> countDefaults (presetsAfterSet (\<lambda>i. ''p_1'') (Some twoDefaults)
        \<lparr> configCache = None, disk = None \<rparr>) = 2
   \<and> countDefaults (presetsAfterLoad (Some (emptyDocument\<lparr> d_summaryPresets := Some numericFlag \<rparr>))) = 0"
  by (simp add: twoDefaults_load twoDefaults_set numericFlag_load)
     (simp add: countDefaults_def twoDefaults_def numericFlag_def)

end
